theory Spec2Isabelle
  imports Complex_Main
begin

section \<open>Data model\<close>

text \<open>
  The pipeline works on pandas data frames. A frame is modelled as the list of its rows,
  a row as a record of the columns that the modelled functions read or write. A cell
  that pandas holds as NaN/NaT/None is \<open>None\<close>; float columns are exact reals
  (\<open>real option\<close> where NaN can occur).

  Floats as reals: the only float comparison that decides a result is
  \<open>coverage_days / days >= 0.7\<close>. Both operands are counts, the quotient is correctly
  rounded and so is the literal \<open>0.7\<close>; a quotient of counts that is not exactly 7/10
  differs from it by at least \<open>1 / (10 * days)\<close>, far more than half a unit in the last
  place for any day count below \<open>10^15\<close>, so the float comparison and the exact one agree.

  pandas emits the groups of a \<open>groupby\<close> sorted by key; here they are listed in order
  of first occurrence, which changes the order of rows and nothing else.
\<close>

datatype error = RuntimeError string | ValueError string

datatype date = Date (dt_year: int) (dt_month: nat) (dt_day: nat)

text \<open>Comparison of two timestamps at midnight: \<open>a >= b\<close>.\<close>

fun date_ge :: "date \<Rightarrow> date \<Rightarrow> bool" where
  "date_ge (Date y m d) (Date y' m' d') =
     (y > y' \<or> (y = y' \<and> (m > m' \<or> (m = m' \<and> d \<ge> d'))))"

text \<open>
  A cell of a \<open>date_local\<close> column as a consumer may read it back: a timestamp (or a
  text that parses to it), a text that \<open>pd.to_datetime(..., errors="coerce")\<close> cannot
  parse and turns into NaT, or a null.
\<close>

datatype date_cell = Timestamp date | Malformed string | NaT

fun to_datetime :: "date_cell \<Rightarrow> date option" where
  "to_datetime (Timestamp d) = Some d"
| "to_datetime (Malformed s) = None"
| "to_datetime NaT = None"

text \<open>\<open>notna\<close>, as the aggregation \<open>count\<close> applies it to a cell.\<close>

fun date_notna :: "date_cell \<Rightarrow> bool" where
  "date_notna NaT = False"
| "date_notna c = True"

text \<open>
  The enriched hourly table. The conversion of \<open>logged_at\<close> to the local time zone is
  done by the \<open>zoneinfo\<close> library and is not modelled: a row carries the local calendar
  date and year it yields. The calendar columns that no aggregation reads
  (\<open>hour_local\<close>, \<open>month\<close>, \<open>weekday\<close>, \<open>weekofyear\<close>, \<open>season\<close>, \<open>period\<close>) and the
  administrative codes are left out.
\<close>

record hourly_row =
  h_city_id :: int
  h_city_name :: "string option"
  h_region_name :: "string option"
  h_date_local :: date
  h_year :: int
  h_pm25 :: "real option"
  h_aqi :: "real option"
  h_pm25_valid :: bool
  h_aqi_valid :: bool
  h_is_valid :: bool

text \<open>The daily table (\<open>weekday\<close> is left out: no modelled function reads it).\<close>

record daily_row =
  d_city_id :: int
  d_city_name :: "string option"
  d_region_name :: "string option"
  d_date_local :: date_cell
  d_pm25_mean :: "real option"
  d_pm25_median :: "real option"
  d_pm25_p90 :: "real option"
  d_pm25_p10 :: "real option"
  d_pm25_max :: "real option"
  d_available_hours :: nat
  d_exceedance_hours :: nat
  d_aqi_mean :: "real option"
  d_exceedance_share :: "real option"
  d_year :: int
  d_month :: nat
  d_season :: string
  d_is_wartime :: bool
  d_period :: string

text \<open>
  The frame \<open>df\<close> of \<open>eligible_city_year_pairs_from_daily\<close>: the columns of the daily
  table that \<open>_compute_good_years\<close> reads, \<open>date_local\<close> parsed and \<open>year\<close> taken from it
  (a float column, NaN where the date is NaT).
\<close>

record elig_row =
  e_city_id :: int
  e_city_name :: "string option"
  e_year :: "int option"
  e_date_local :: "date option"
  e_available_hours :: nat

text \<open>A row of the coverage table (\<open>coverage\<close>, \<open>good_years\<close>).\<close>

record coverage_row =
  c_city_id :: int
  c_city_name :: "string option"
  c_year :: "int option"
  c_days :: nat
  c_coverage_days :: nat
  c_coverage_ratio :: real

text \<open>
  A row of the city distribution table. \<open>s_year\<close> is NaN on period-level rows and
  \<open>s_period\<close> on year-level rows (the two summaries are concatenated).
  \<open>days_with_coverage_ge18\<close> is a float column holding a count.
\<close>

record dist_row =
  s_city_id :: int
  s_city_name :: "string option"
  s_region_name :: "string option"
  s_period :: "string option"
  s_year :: "int option"
  s_days :: nat
  s_pm25_mean :: "real option"
  s_pm25_median :: "real option"
  s_pm25_p90 :: "real option"
  s_pm25_p10 :: "real option"
  s_exceedance_share :: "real option"
  s_available_hours_mean :: "real option"
  s_days_with_coverage_ge18 :: nat
  s_aggregation_level :: string

record region_row =
  r_region_name :: "string option"
  r_period :: string
  r_cities :: nat
  r_days :: nat
  r_pm25_mean :: "real option"
  r_pm25_median :: "real option"
  r_pm25_p90 :: "real option"
  r_exceedance_share :: "real option"

section \<open>Column statistics of pandas\<close>

text \<open>All of them skip NaN; on no value at all they give NaN.\<close>

fun dropna :: "'a option list \<Rightarrow> 'a list" where
  "dropna [] = []"
| "dropna (None # xs) = dropna xs"
| "dropna (Some x # xs) = x # dropna xs"

definition nunique :: "'a option list \<Rightarrow> nat" where
  "nunique xs = length (remdups (dropna xs))"

definition mean_values :: "real list \<Rightarrow> real option" where
  "mean_values v = (if v = [] then None else Some (sum_list v / real (length v)))"

definition mean_skipna :: "real option list \<Rightarrow> real option" where
  "mean_skipna xs = mean_values (dropna xs)"

definition median_skipna :: "real option list \<Rightarrow> real option" where
  "median_skipna xs =
     (let v = sort (dropna xs); n = length v in
      if n = 0 then None
      else if odd n then Some (v ! (n div 2))
      else Some ((v ! (n div 2 - 1) + v ! (n div 2)) / 2))"

text \<open>\<open>Series.quantile(q)\<close>, linear interpolation between the two nearest ranks.\<close>

definition quantile :: "real \<Rightarrow> real option list \<Rightarrow> real option" where
  "quantile q xs =
     (let v = sort (dropna xs); n = length v in
      if n = 0 then None
      else
        let pos = q * real (n - 1);
            lo = nat \<lfloor>pos\<rfloor>;
            hi = min (lo + 1) (n - 1)
        in Some (v ! lo + (pos - real lo) * (v ! hi - v ! lo)))"

definition max_skipna :: "real option list \<Rightarrow> real option" where
  "max_skipna xs =
     (case dropna xs of [] \<Rightarrow> None | x # v \<Rightarrow> Some (fold max v x))"

section \<open>Eligibility (src/lib/eligibility.py)\<close>

definition MIN_COVERAGE_RATIO :: real where "MIN_COVERAGE_RATIO = 7 / 10"
definition MIN_TOTAL_YEARS :: nat where "MIN_TOTAL_YEARS = 4"
definition MIN_PREWAR_YEARS :: nat where "MIN_PREWAR_YEARS = 2"
definition MIN_WARTIME_YEARS :: nat where "MIN_WARTIME_YEARS = 2"

text \<open>
  The first statement of \<open>_compute_good_years\<close> with the \<open>coverage_ratio\<close> column added:
  one row per (city_id, city_name, year) of \<open>df\<close>. \<open>dropna=False\<close> keeps the rows whose
  key holds a NaN as groups of their own; \<open>nunique\<close> does not count NaT.
\<close>

definition coverage_key :: "elig_row \<Rightarrow> int \<times> string option \<times> int option" where
  "coverage_key r = (e_city_id r, e_city_name r, e_year r)"

definition coverage_group :: "elig_row list \<Rightarrow> int \<times> string option \<times> int option \<Rightarrow> coverage_row" where
  "coverage_group df k =
     (let grp = filter (\<lambda>r. coverage_key r = k) df;
          days = nunique (map e_date_local grp);
          coverage_days = length (filter (\<lambda>r. 18 \<le> e_available_hours r) grp)
      in \<lparr> c_city_id = fst k, c_city_name = fst (snd k), c_year = snd (snd k),
           c_days = days, c_coverage_days = coverage_days,
           c_coverage_ratio = (if days > 0 then real coverage_days / real days else 0) \<rparr>)"

definition coverage :: "elig_row list \<Rightarrow> coverage_row list" where
  "coverage df = map (coverage_group df) (remdups (map coverage_key df))"

definition compute_good_years :: "elig_row list \<Rightarrow> coverage_row list" where
  "compute_good_years df =
     filter (\<lambda>g. c_coverage_ratio g \<ge> MIN_COVERAGE_RATIO) (coverage df)"

text \<open>
  \<open>frame.groupby("city_id")["year"].nunique()\<close>: a series indexed by the city ids of the
  frame, as an association list.
\<close>

definition year_counts :: "coverage_row list \<Rightarrow> (int \<times> nat) list" where
  "year_counts frame =
     map (\<lambda>c. (c, nunique (map c_year (filter (\<lambda>g. c_city_id g = c) frame))))
         (remdups (map c_city_id frame))"

text \<open>\<open>series.get(key, 0)\<close>.\<close>

definition series_get :: "(int \<times> nat) list \<Rightarrow> int \<Rightarrow> nat" where
  "series_get s k = (case map_of s k of None \<Rightarrow> 0 | Some n \<Rightarrow> n)"

text \<open>A comparison of a float cell with a number is False on NaN.\<close>

definition year_le :: "int option \<Rightarrow> int \<Rightarrow> bool" where
  "year_le y b = (case y of None \<Rightarrow> False | Some v \<Rightarrow> v \<le> b)"

definition year_ge :: "int option \<Rightarrow> int \<Rightarrow> bool" where
  "year_ge y b = (case y of None \<Rightarrow> False | Some v \<Rightarrow> v \<ge> b)"

definition eligible_step ::
  "(int \<times> nat) list \<Rightarrow> (int \<times> nat) list \<Rightarrow> int \<times> nat \<Rightarrow> int set \<Rightarrow> int set" where
  "eligible_step prewar_counts wartime_counts item eligible =
     (let city_id = fst item; total = snd item;
          pre = series_get prewar_counts city_id;
          war = series_get wartime_counts city_id
      in if total \<ge> MIN_TOTAL_YEARS \<and> pre \<ge> MIN_PREWAR_YEARS \<and> war \<ge> MIN_WARTIME_YEARS
         then insert city_id eligible else eligible)"

definition eligible_city_ids :: "coverage_row list \<Rightarrow> int set" where
  "eligible_city_ids good_years =
     (let total_counts = year_counts good_years;
          prewar_counts = year_counts (filter (\<lambda>g. year_le (c_year g) 2021) good_years);
          wartime_counts = year_counts (filter (\<lambda>g. year_ge (c_year g) 2022) good_years)
      in fold (eligible_step prewar_counts wartime_counts) total_counts {})"

text \<open>
  \<open>{(int(row.city_id), int(row.year)) for row in filtered.itertuples()}\<close>:
  \<open>int\<close> of a NaN raises ValueError.
\<close>

fun pairs_of :: "coverage_row list \<Rightarrow> error + (int \<times> int) set" where
  "pairs_of [] = Inr {}"
| "pairs_of (g # gs) =
     (case c_year g of
        None \<Rightarrow> Inl (ValueError ''cannot convert float NaN to integer'')
      | Some y \<Rightarrow>
          (case pairs_of gs of Inl e \<Rightarrow> Inl e | Inr ps \<Rightarrow> Inr (insert (c_city_id g, y) ps)))"

definition prepare_daily :: "daily_row list \<Rightarrow> elig_row list" where
  "prepare_daily daily =
     map (\<lambda>r. \<lparr> e_city_id = d_city_id r, e_city_name = d_city_name r,
               e_year = map_option dt_year (to_datetime (d_date_local r)),
               e_date_local = to_datetime (d_date_local r),
               e_available_hours = d_available_hours r \<rparr>) daily"

definition eligible_city_year_pairs_from_daily :: "daily_row list \<Rightarrow> error + (int \<times> int) set" where
  "eligible_city_year_pairs_from_daily daily =
     (if daily = [] then Inr {}
      else
        let df = prepare_daily daily;
            good_years = compute_good_years df;
            eligible_ids = eligible_city_ids good_years;
            filtered = filter (\<lambda>g. c_city_id g \<in> eligible_ids) good_years
        in pairs_of filtered)"

definition eligible_city_ids_from_daily :: "daily_row list \<Rightarrow> error + int set" where
  "eligible_city_ids_from_daily daily =
     (case eligible_city_year_pairs_from_daily daily of
        Inl e \<Rightarrow> Inl e
      | Inr pairs \<Rightarrow> Inr (fst ` pairs))"

text \<open>
  \<open>year_level\<close>: the year-level rows whose year is not NaN, the year cast to int.
  Then the rows with \<open>days > 0\<close>, reduced to the coverage columns, with their ratio.
\<close>

definition year_level_rows :: "dist_row list \<Rightarrow> dist_row list" where
  "year_level_rows distributions =
     filter (\<lambda>r. s_aggregation_level r = ''year'' \<and> s_year r \<noteq> None) distributions"

definition dist_coverage_row :: "dist_row \<Rightarrow> coverage_row" where
  "dist_coverage_row r =
     \<lparr> c_city_id = s_city_id r, c_city_name = s_city_name r, c_year = s_year r,
       c_days = s_days r, c_coverage_days = s_days_with_coverage_ge18 r,
       c_coverage_ratio =
         (if s_days r > 0 then real (s_days_with_coverage_ge18 r) / real (s_days r) else 0) \<rparr>"

definition eligible_city_ids_from_distributions :: "dist_row list \<Rightarrow> int set" where
  "eligible_city_ids_from_distributions distributions =
     (let year_level = year_level_rows distributions in
      if year_level = [] then {}
      else
        let good_years = map dist_coverage_row (filter (\<lambda>r. s_days r > 0) year_level);
            good_years = filter (\<lambda>g. c_coverage_ratio g \<ge> MIN_COVERAGE_RATIO) good_years
        in eligible_city_ids good_years)"

section \<open>Aggregation (src/pipeline/aggregate.py)\<close>

definition season_from_month :: "nat \<Rightarrow> string" where
  "season_from_month month =
     (if month \<in> {12, 1, 2} then ''winter''
      else if month \<in> {3, 4, 5} then ''spring''
      else if month \<in> {6, 7, 8} then ''summer''
      else ''autumn'')"

text \<open>\<open>series.between(lo, hi, inclusive="both")\<close>: False on NaN.\<close>

definition between :: "real option \<Rightarrow> real \<Rightarrow> real \<Rightarrow> bool" where
  "between x lo hi = (case x of None \<Rightarrow> False | Some v \<Rightarrow> lo \<le> v \<and> v \<le> hi)"

text \<open>
  The validity columns of \<open>_enrich_hourly\<close>. Its argument is the loaded hourly table
  already joined to the city metadata and carrying the local calendar date.
\<close>

definition enrich_hourly :: "hourly_row list \<Rightarrow> hourly_row list" where
  "enrich_hourly hourly =
     map (\<lambda>r.
       let pm25_valid = (between (h_pm25 r) 0 1000 \<or> h_pm25 r = None);
           aqi_valid = (between (h_aqi r) 0 500 \<or> h_aqi r = None)
       in r\<lparr> h_pm25_valid := pm25_valid, h_aqi_valid := aqi_valid,
              h_is_valid := (pm25_valid \<and> aqi_valid) \<rparr>) hourly"

text \<open>\<open>valid["pm25"] > pm25_guideline\<close>: False on NaN.\<close>

definition exceed :: "real \<Rightarrow> hourly_row \<Rightarrow> bool" where
  "exceed pm25_guideline r = (case h_pm25 r of None \<Rightarrow> False | Some v \<Rightarrow> v > pm25_guideline)"

text \<open>
  The grouping of \<open>_daily_aggregates\<close> has the default \<open>dropna=True\<close>: a row with a NaN
  in a key column (a city without metadata) belongs to no group.
\<close>

definition daily_key :: "hourly_row \<Rightarrow> int \<times> string option \<times> string option \<times> date" where
  "daily_key r = (h_city_id r, h_city_name r, h_region_name r, h_date_local r)"

definition daily_key_notna :: "hourly_row \<Rightarrow> bool" where
  "daily_key_notna r = (h_city_name r \<noteq> None \<and> h_region_name r \<noteq> None)"

definition daily_group ::
  "real \<Rightarrow> date \<Rightarrow> hourly_row list \<Rightarrow> int \<times> string option \<times> string option \<times> date \<Rightarrow> daily_row" where
  "daily_group pm25_guideline wartime_start valid k =
     (let grp = filter (\<lambda>r. daily_key r = k) valid;
          day = snd (snd (snd k));
          available_hours = length grp;
          exceedance_hours = length (filter (exceed pm25_guideline) grp);
          is_wartime = date_ge day wartime_start
      in \<lparr> d_city_id = fst k, d_city_name = fst (snd k), d_region_name = fst (snd (snd k)),
           d_date_local = Timestamp day,
           d_pm25_mean = mean_skipna (map h_pm25 grp),
           d_pm25_median = median_skipna (map h_pm25 grp),
           d_pm25_p90 = quantile (9 / 10) (map h_pm25 grp),
           d_pm25_p10 = quantile (1 / 10) (map h_pm25 grp),
           d_pm25_max = max_skipna (map h_pm25 grp),
           d_available_hours = available_hours,
           d_exceedance_hours = exceedance_hours,
           d_aqi_mean = mean_skipna (map h_aqi grp),
           d_exceedance_share =
             (if available_hours > 0
              then Some (real exceedance_hours / real available_hours) else None),
           d_year = dt_year day, d_month = dt_month day,
           d_season = season_from_month (dt_month day),
           d_is_wartime = is_wartime,
           d_period = (if is_wartime then ''wartime'' else ''pre_war'') \<rparr>)"

definition daily_aggregates :: "hourly_row list \<Rightarrow> real \<Rightarrow> date \<Rightarrow> error + daily_row list" where
  "daily_aggregates hourly pm25_guideline wartime_start =
     (let valid = filter h_is_valid hourly in
      if valid = [] then Inl (RuntimeError ''No valid hourly records available for aggregation'')
      else Inr (map (daily_group pm25_guideline wartime_start valid)
                    (remdups (map daily_key (filter daily_key_notna valid)))))"

text \<open>
  The eight aggregations of \<open>_city_distributions\<close> over one group of daily rows; the
  caller fills in the key columns and the level.
\<close>

definition dist_aggregate ::
  "int \<Rightarrow> string option \<Rightarrow> string option \<Rightarrow> string option \<Rightarrow> int option \<Rightarrow> string \<Rightarrow>
   daily_row list \<Rightarrow> dist_row" where
  "dist_aggregate city name region period year level grp =
     \<lparr> s_city_id = city, s_city_name = name, s_region_name = region,
       s_period = period, s_year = year,
       s_days = length (filter date_notna (map d_date_local grp)),
       s_pm25_mean = mean_skipna (map d_pm25_mean grp),
       s_pm25_median = median_skipna (map d_pm25_median grp),
       s_pm25_p90 = quantile (9 / 10) (map d_pm25_median grp),
       s_pm25_p10 = quantile (1 / 10) (map d_pm25_median grp),
       s_exceedance_share = mean_skipna (map d_exceedance_share grp),
       s_available_hours_mean = mean_values (map (\<lambda>r. real (d_available_hours r)) grp),
       s_days_with_coverage_ge18 = length (filter (\<lambda>r. 18 \<le> d_available_hours r) grp),
       s_aggregation_level = level \<rparr>"

definition period_key :: "daily_row \<Rightarrow> int \<times> string option \<times> string option \<times> string" where
  "period_key r = (d_city_id r, d_city_name r, d_region_name r, d_period r)"

definition year_key :: "daily_row \<Rightarrow> int \<times> string option \<times> string option \<times> int" where
  "year_key r = (d_city_id r, d_city_name r, d_region_name r, d_year r)"

definition period_summary :: "daily_row list \<Rightarrow> dist_row list" where
  "period_summary daily =
     map (\<lambda>k. dist_aggregate (fst k) (fst (snd k)) (fst (snd (snd k)))
                (Some (snd (snd (snd k)))) None ''period''
                (filter (\<lambda>r. period_key r = k) daily))
         (remdups (map period_key daily))"

definition year_summary :: "daily_row list \<Rightarrow> dist_row list" where
  "year_summary daily =
     map (\<lambda>k. dist_aggregate (fst k) (fst (snd k)) (fst (snd (snd k)))
                None (Some (snd (snd (snd k)))) ''year''
                (filter (\<lambda>r. year_key r = k) daily))
         (remdups (map year_key daily))"

definition city_distributions :: "daily_row list \<Rightarrow> dist_row list" where
  "city_distributions daily = period_summary daily @ year_summary daily"

definition region_key :: "daily_row \<Rightarrow> string option \<times> string" where
  "region_key r = (d_region_name r, d_period r)"

definition region_period_summary :: "daily_row list \<Rightarrow> region_row list" where
  "region_period_summary daily =
     map (\<lambda>k. let grp = filter (\<lambda>r. region_key r = k) daily in
            \<lparr> r_region_name = fst k, r_period = snd k,
              r_cities = length (remdups (map d_city_id grp)),
              r_days = length (filter date_notna (map d_date_local grp)),
              r_pm25_mean = mean_skipna (map d_pm25_mean grp),
              r_pm25_median = median_skipna (map d_pm25_median grp),
              r_pm25_p90 = quantile (9 / 10) (map d_pm25_median grp),
              r_exceedance_share = mean_skipna (map d_exceedance_share grp) \<rparr>)
         (remdups (map region_key daily))"

text \<open>
  The output directory: one slot per parquet file that \<open>aggregate_data\<close> writes,
  \<open>None\<close> while the file does not exist.
\<close>

record store =
  f_city_hourly :: "hourly_row list option"
  f_city_daily :: "daily_row list option"
  f_city_distributions :: "dist_row list option"
  f_region_period :: "region_row list option"

record aggregation_result =
  hourly_rows :: nat
  daily_rows :: nat
  city_distribution_rows :: nat
  region_period_rows :: nat
  eligible_cities :: nat

text \<open>
  \<open>frame.merge(eligible_pairs_df, on=["city_id", "year"], how="inner")\<close>. The right
  frame is built from a set, so it holds every eligible pair once and the join keeps a
  row of the left frame once if its pair is eligible and not at all otherwise.
\<close>

definition merge_hourly :: "hourly_row list \<Rightarrow> (int \<times> int) set \<Rightarrow> hourly_row list" where
  "merge_hourly frame eligible_pairs =
     filter (\<lambda>r. (h_city_id r, h_year r) \<in> eligible_pairs) frame"

definition merge_daily :: "daily_row list \<Rightarrow> (int \<times> int) set \<Rightarrow> daily_row list" where
  "merge_daily frame eligible_pairs =
     filter (\<lambda>r. (d_city_id r, d_year r) \<in> eligible_pairs) frame"

text \<open>
  \<open>aggregate_data\<close> without administrative boundaries. \<open>hourly\<close> is what \<open>_load_hourly\<close>
  and the metadata join deliver, \<open>processed_dir\<close> the state of the output directory;
  the result is the run summary or the error raised, and the directory afterwards.
\<close>

definition aggregate_data ::
  "hourly_row list \<Rightarrow> store \<Rightarrow> date \<Rightarrow> real \<Rightarrow> (error + aggregation_result) \<times> store" where
  "aggregate_data hourly processed_dir wartime_start pm25_guideline =
     (let hourly_enriched = enrich_hourly hourly in
      case daily_aggregates hourly_enriched pm25_guideline wartime_start of
        Inl e \<Rightarrow> (Inl e, processed_dir)
      | Inr daily \<Rightarrow>
          (case eligible_city_year_pairs_from_daily daily of
             Inl e \<Rightarrow> (Inl e, processed_dir)
           | Inr eligible_pairs \<Rightarrow>
               if eligible_pairs = {}
               then (Inl (RuntimeError ''No cities meet coverage criteria for analysis''),
                     processed_dir)
               else
                 let eligible_ids = fst ` eligible_pairs;
                     hourly_enriched = merge_hourly hourly_enriched eligible_pairs;
                     daily = merge_daily daily eligible_pairs;
                     dir1 = processed_dir\<lparr> f_city_hourly := Some hourly_enriched \<rparr>;
                     dir2 = dir1\<lparr> f_city_daily := Some daily \<rparr>;
                     distributions = city_distributions daily;
                     dir3 = dir2\<lparr> f_city_distributions := Some distributions \<rparr>;
                     region_period = region_period_summary daily;
                     dir4 = dir3\<lparr> f_region_period := Some region_period \<rparr>
                 in (Inr \<lparr> hourly_rows = length hourly_enriched,
                            daily_rows = length daily,
                            city_distribution_rows = length distributions,
                            region_period_rows = length region_period,
                            eligible_cities = card eligible_ids \<rparr>,
                     dir4)))"

section \<open>Notions of the specification\<close>

text \<open>
  The good years of a city: the distinct non-null years of its rows in a frame of good
  years.
\<close>

definition city_years :: "coverage_row list \<Rightarrow> int \<Rightarrow> int set" where
  "city_years good_years c =
     set (dropna (map c_year (filter (\<lambda>g. c_city_id g = c) good_years)))"

text \<open>Removing one good year of a city: all rows of that city and year go.\<close>

definition drop_good_year :: "int \<Rightarrow> int \<Rightarrow> coverage_row list \<Rightarrow> coverage_row list" where
  "drop_good_year c y good_years =
     filter (\<lambda>g. \<not> (c_city_id g = c \<and> c_year g = Some y)) good_years"

text \<open>
  The valid hourly records of the (city, name, region, local date) of a daily row.
\<close>

definition valid_records_of :: "hourly_row list \<Rightarrow> daily_row \<Rightarrow> hourly_row list" where
  "valid_records_of hourly r =
     filter (\<lambda>h. h_is_valid h \<and> h_city_id h = d_city_id r \<and> h_city_name h = d_city_name r
                \<and> h_region_name h = d_region_name r
                \<and> Timestamp (h_date_local h) = d_date_local r) hourly"

text \<open>No city has more than \<open>n\<close> valid records on one local date.\<close>

definition hours_per_day_at_most :: "nat \<Rightarrow> hourly_row list \<Rightarrow> bool" where
  "hours_per_day_at_most n hourly =
     (\<forall>h \<in> set hourly.
        length (filter (\<lambda>h'. h_is_valid h' \<and> h_city_id h' = h_city_id h
                             \<and> h_date_local h' = h_date_local h) hourly) \<le> n)"

text \<open>
  The daily rows that a row of the city distribution table summarises: those of its
  city, name and region, in its period on a period-level row and in its year on a
  year-level row.
\<close>

definition rows_of_dist_row :: "daily_row list \<Rightarrow> dist_row \<Rightarrow> daily_row list" where
  "rows_of_dist_row daily s =
     filter (\<lambda>r. d_city_id r = s_city_id s \<and> d_city_name r = s_city_name s
                \<and> d_region_name r = s_region_name s
                \<and> (if s_aggregation_level s = ''period''
                    then Some (d_period r) = s_period s
                    else Some (d_year r) = s_year s)) daily"

text \<open>The three columns of a daily row that the scenario of the specification names.\<close>

definition hours_columns :: "daily_row \<Rightarrow> nat \<times> nat \<times> real option" where
  "hours_columns r = (d_available_hours r, d_exceedance_hours r, d_exceedance_share r)"

text \<open>
  Equivalent coverage inputs. On the daily side the coverage of a city-year is counted
  as the specification words it: the rows of a (city_id, city_name) whose
  \<open>date_local\<close> lies in the year, \<open>days\<close> the number of distinct dates among them and the
  covered days the number of them with at least 18 available hours.
\<close>

definition cell_year :: "date_cell \<Rightarrow> int option" where
  "cell_year c = map_option dt_year (to_datetime c)"

definition rows_of_city_year ::
  "daily_row list \<Rightarrow> int \<Rightarrow> string option \<Rightarrow> int \<Rightarrow> daily_row list" where
  "rows_of_city_year daily c n y =
     filter (\<lambda>r. d_city_id r = c \<and> d_city_name r = n \<and> cell_year (d_date_local r) = Some y) daily"

definition days_observed :: "daily_row list \<Rightarrow> int \<Rightarrow> string option \<Rightarrow> int \<Rightarrow> nat" where
  "days_observed daily c n y =
     card (set (dropna (map (\<lambda>r. to_datetime (d_date_local r)) (rows_of_city_year daily c n y))))"

definition days_covered :: "daily_row list \<Rightarrow> int \<Rightarrow> string option \<Rightarrow> int \<Rightarrow> nat" where
  "days_covered daily c n y =
     length (filter (\<lambda>r. 18 \<le> d_available_hours r) (rows_of_city_year daily c n y))"

definition city_year_keys :: "daily_row list \<Rightarrow> (int \<times> string option \<times> int) list" where
  "city_year_keys daily =
     concat (map (\<lambda>r. case cell_year (d_date_local r) of
                         None \<Rightarrow> []
                       | Some y \<Rightarrow> [(d_city_id r, d_city_name r, y)]) daily)"

text \<open>The (city_id, year, days, covered days) that each table carries.\<close>

definition daily_coverage_counts :: "daily_row list \<Rightarrow> (int \<times> int \<times> nat \<times> nat) set" where
  "daily_coverage_counts daily =
     (\<lambda>k. (fst k, snd (snd k),
            days_observed daily (fst k) (fst (snd k)) (snd (snd k)),
            days_covered daily (fst k) (fst (snd k)) (snd (snd k))))
       ` set (city_year_keys daily)"

definition dist_coverage_counts :: "dist_row list \<Rightarrow> (int \<times> int \<times> nat \<times> nat) set" where
  "dist_coverage_counts distributions =
     set (concat (map (\<lambda>r. case s_year r of
                              None \<Rightarrow> []
                            | Some y \<Rightarrow>
                                if s_aggregation_level r = ''year''
                                then [(s_city_id r, y, s_days r, s_days_with_coverage_ge18 r)]
                                else []) distributions))"

definition equivalent_coverage_inputs :: "daily_row list \<Rightarrow> dist_row list \<Rightarrow> bool" where
  "equivalent_coverage_inputs daily distributions \<longleftrightarrow>
     dist_coverage_counts distributions = daily_coverage_counts daily"

text \<open>The (city_id, year) of the good years among such counts, and in a frame of good years.\<close>

definition good_of_counts :: "(int \<times> int \<times> nat \<times> nat) set \<Rightarrow> (int \<times> int) set" where
  "good_of_counts S =
     {(c, y) | c y days cov. (c, y, days, cov) \<in> S \<and> days > 0 \<and> real cov / real days \<ge> 7 / 10}"

definition good_pairs :: "coverage_row list \<Rightarrow> (int \<times> int) set" where
  "good_pairs good_years = {(c_city_id g, y) | g y. g \<in> set good_years \<and> c_year g = Some y}"

text \<open>
  The raw-daily entry point as the specification words it: the rows of \<open>df\<close> whose year
  is null are dropped before the grouping.
\<close>

definition drop_null_years :: "elig_row list \<Rightarrow> elig_row list" where
  "drop_null_years df = filter (\<lambda>e. e_year e \<noteq> None) df"

definition pairs_dropping_null_years :: "daily_row list \<Rightarrow> error + (int \<times> int) set" where
  "pairs_dropping_null_years daily =
     (let df = drop_null_years (prepare_daily daily);
          good_years = compute_good_years df;
          eligible_ids = eligible_city_ids good_years
      in pairs_of (filter (\<lambda>g. c_city_id g \<in> eligible_ids) good_years))"

section \<open>Example inputs\<close>

text \<open>A city with four good years, two up to 2021 and two from 2022 on.\<close>

definition ex_good_years :: "coverage_row list" where
  "ex_good_years =
     map (\<lambda>y. \<lparr> c_city_id = 7, c_city_name = Some ''Lviv'', c_year = Some y,
                c_days = 10, c_coverage_days = 9, c_coverage_ratio = 9 / 10 \<rparr>)
         [2020, 2021, 2022, 2023]"

text \<open>
  Ten days of one city in 2020, seven of them with 18 available hours, and one row whose
  date did not parse.
\<close>

definition ex_df :: "elig_row list" where
  "ex_df =
     map (\<lambda>d. \<lparr> e_city_id = 1, e_city_name = Some ''Kyiv'', e_year = Some 2020,
                e_date_local = Some (Date 2020 1 d),
                e_available_hours = (if d \<le> 7 then 18 else 17) \<rparr>)
         [1, 2, 3, 4, 5, 6, 7, 8, 9, 10]
     @ [\<lparr> e_city_id = 1, e_city_name = Some ''Kyiv'', e_year = None,
          e_date_local = None, e_available_hours = 24 \<rparr>]"

definition ex_boundary_year :: coverage_row where
  "ex_boundary_year =
     \<lparr> c_city_id = 1, c_city_name = Some ''Kyiv'', c_year = Some 2020,
       c_days = 10, c_coverage_days = 7, c_coverage_ratio = 7 / 10 \<rparr>"

definition ex_null_year :: coverage_row where
  "ex_null_year =
     \<lparr> c_city_id = 1, c_city_name = Some ''Kyiv'', c_year = None,
       c_days = 0, c_coverage_days = 1, c_coverage_ratio = 0 \<rparr>"

text \<open>
  A daily row of a city with a given \<open>date_local\<close> cell and number of available hours;
  the statistics columns hold the same values in every such row, with a mean above the
  median.
\<close>

definition ex_daily_row :: "int \<Rightarrow> string \<Rightarrow> date_cell \<Rightarrow> nat \<Rightarrow> daily_row" where
  "ex_daily_row city name cell hours =
     \<lparr> d_city_id = city, d_city_name = Some name, d_region_name = Some ''Oblast'',
       d_date_local = cell,
       d_pm25_mean = Some 12, d_pm25_median = Some 11, d_pm25_p90 = Some 14,
       d_pm25_p10 = Some 10, d_pm25_max = Some 15,
       d_available_hours = hours, d_exceedance_hours = 0,
       d_aqi_mean = None, d_exceedance_share = Some 0,
       d_year = (case to_datetime cell of None \<Rightarrow> 0 | Some d \<Rightarrow> dt_year d),
       d_month = (case to_datetime cell of None \<Rightarrow> 0 | Some d \<Rightarrow> dt_month d),
       d_season = ''winter'', d_is_wartime = False, d_period = ''pre_war'' \<rparr>"

text \<open>
  One fully covered day of city 1 in each of 2020 to 2023, and one row whose date is
  malformed.
\<close>

definition ex_daily_mixed :: "daily_row list" where
  "ex_daily_mixed =
     [ex_daily_row 1 ''Kyiv'' (Timestamp (Date 2020 1 1)) 24,
      ex_daily_row 1 ''Kyiv'' (Timestamp (Date 2021 1 1)) 24,
      ex_daily_row 1 ''Kyiv'' (Malformed ''2020-13-45'') 24,
      ex_daily_row 1 ''Kyiv'' (Timestamp (Date 2022 1 1)) 24,
      ex_daily_row 1 ''Kyiv'' (Timestamp (Date 2023 1 1)) 24]"

text \<open>
  An hourly record of Kyiv on the local date 2021-10-31, the day the clocks go back:
  the local date spans 25 hours, so a sensor reporting once an hour yields 25 records.
\<close>

definition ex_hour_dst :: hourly_row where
  "ex_hour_dst =
     \<lparr> h_city_id = 1, h_city_name = Some ''Kyiv'', h_region_name = Some ''Kyiv'',
       h_date_local = Date 2021 10 31, h_year = 2021,
       h_pm25 = Some 12, h_aqi = Some 40,
       h_pm25_valid = True, h_aqi_valid = True, h_is_valid = True \<rparr>"

definition ex_hourly_dst :: "hourly_row list" where
  "ex_hourly_dst = replicate 25 ex_hour_dst"

text \<open>Eighteen records of one day, twelve of them above the guideline of 15.\<close>

definition ex_hourly_day :: "hourly_row list" where
  "ex_hourly_day =
     replicate 12 (ex_hour_dst\<lparr> h_pm25 := Some 20 \<rparr>) @ replicate 6 ex_hour_dst"

definition ex_day :: daily_row where
  "ex_day = daily_group 15 (Date 2022 2 24) ex_hourly_day (daily_key ex_hour_dst)"

text \<open>An empty output directory.\<close>

definition ex_dir :: store where
  "ex_dir = \<lparr> f_city_hourly = None, f_city_daily = None,
             f_city_distributions = None, f_region_period = None \<rparr>"

text \<open>
  Eighteen records of city 1 on 1 June of a year, as loaded (validity not yet computed).
\<close>

definition ex_hour_of :: "int \<Rightarrow> hourly_row" where
  "ex_hour_of y =
     \<lparr> h_city_id = 1, h_city_name = Some ''Kyiv'', h_region_name = Some ''Kyiv'',
       h_date_local = Date y 6 1, h_year = y,
       h_pm25 = Some 12, h_aqi = None,
       h_pm25_valid = False, h_aqi_valid = False, h_is_valid = False \<rparr>"

definition ex_hourly_year :: "int \<Rightarrow> hourly_row list" where
  "ex_hourly_year y = replicate 18 (ex_hour_of y)"

text \<open>Four covered years of city 1, and two records of city 2 in 2020.\<close>

definition ex_hourly_years :: "hourly_row list" where
  "ex_hourly_years =
     ex_hourly_year 2020 @ ex_hourly_year 2021 @ ex_hourly_year 2022 @ ex_hourly_year 2023
     @ replicate 2 ((ex_hour_of 2020)\<lparr> h_city_id := 2, h_city_name := Some ''Lviv'' \<rparr>)"

text \<open>The daily table of the eighteen records of 2020 alone.\<close>

definition ex_daily_2020 :: "daily_row list" where
  "ex_daily_2020 =
     [\<lparr> d_city_id = 1, d_city_name = Some ''Kyiv'', d_region_name = Some ''Kyiv'',
         d_date_local = Timestamp (Date 2020 6 1),
         d_pm25_mean = Some 12, d_pm25_median = Some 12, d_pm25_p90 = Some 12,
         d_pm25_p10 = Some 12, d_pm25_max = Some 12,
         d_available_hours = 18, d_exceedance_hours = 0, d_aqi_mean = None,
         d_exceedance_share = Some 0, d_year = 2020, d_month = 6,
         d_season = ''summer'', d_is_wartime = False, d_period = ''pre_war'' \<rparr>]"

definition ex_result :: aggregation_result where
  "ex_result =
     \<lparr> hourly_rows = 72, daily_rows = 4, city_distribution_rows = 6,
       region_period_rows = 2, eligible_cities = 1 \<rparr>"

text \<open>
  The scenario: four hourly records of one city on one day with pm25 values
  10, 20, 30 and NaN, as loaded.
\<close>

definition ex_hourly_scenario :: "hourly_row list" where
  "ex_hourly_scenario =
     map (\<lambda>v. \<lparr> h_city_id = 1, h_city_name = Some ''Kyiv'', h_region_name = Some ''Kyiv'',
                h_date_local = Date 2023 3 5, h_year = 2023,
                h_pm25 = v, h_aqi = None,
                h_pm25_valid = False, h_aqi_valid = False, h_is_valid = False \<rparr>)
         [Some 10, Some 20, Some 30, None]"

text \<open>A daily table of one row, and the two rows of its city distribution table.\<close>

definition ex_one_day :: "daily_row list" where
  "ex_one_day = [ex_daily_row 1 ''Kyiv'' (Timestamp (Date 2020 1 1)) 24]"

definition ex_dist_period :: dist_row where
  "ex_dist_period =
     \<lparr> s_city_id = 1, s_city_name = Some ''Kyiv'', s_region_name = Some ''Oblast'',
       s_period = Some ''pre_war'', s_year = None, s_days = 1,
       s_pm25_mean = Some 12, s_pm25_median = Some 11, s_pm25_p90 = Some 11,
       s_pm25_p10 = Some 11, s_exceedance_share = Some 0,
       s_available_hours_mean = Some 24, s_days_with_coverage_ge18 = 1,
       s_aggregation_level = ''period'' \<rparr>"

definition ex_dist_year :: dist_row where
  "ex_dist_year =
     ex_dist_period\<lparr> s_period := None, s_year := Some 2020, s_aggregation_level := ''year'' \<rparr>"

text \<open>
  The four well-formed rows of \<open>ex_daily_mixed\<close> and their city distribution table.
\<close>

definition ex_daily_four :: "daily_row list" where
  "ex_daily_four =
     [ex_daily_row 1 ''Kyiv'' (Timestamp (Date 2020 1 1)) 24,
      ex_daily_row 1 ''Kyiv'' (Timestamp (Date 2021 1 1)) 24,
      ex_daily_row 1 ''Kyiv'' (Timestamp (Date 2022 1 1)) 24,
      ex_daily_row 1 ''Kyiv'' (Timestamp (Date 2023 1 1)) 24]"

definition ex_distributions :: "dist_row list" where
  "ex_distributions = city_distributions ex_daily_four"

section \<open>Properties of the eligibility rule\<close>

lemma set_dropna: "set (dropna xs) = {y. Some y \<in> set xs}"
  by (induction xs rule: dropna.induct) auto

lemma nunique_card: "nunique xs = card (set (dropna xs))"
  by (simp add: nunique_def length_remdups_card_conv)

lemma city_years_iff:
  "y \<in> city_years frame c \<longleftrightarrow> (\<exists>g \<in> set frame. c_city_id g = c \<and> c_year g = Some y)"
  by (force simp: city_years_def set_dropna)

lemma nunique_city:
  "nunique (map c_year (filter (\<lambda>g. c_city_id g = c) frame)) = card (city_years frame c)"
  by (simp add: nunique_card city_years_def)

lemma map_of_year_counts:
  "map_of (year_counts frame) c =
     (if c \<in> c_city_id ` set frame then Some (card (city_years frame c)) else None)"
proof -
  have "map_of (map (\<lambda>c. (c, f c)) ks) c = (if c \<in> set ks then Some (f c) else None)"
    for f :: "int \<Rightarrow> nat" and ks
    by (induction ks) auto
  then show ?thesis
    unfolding year_counts_def by (simp add: nunique_city)
qed

lemma city_years_empty: "c \<notin> c_city_id ` set frame \<Longrightarrow> city_years frame c = {}"
  by (auto simp: city_years_iff)

lemma series_get_year_counts: "series_get (year_counts frame) c = card (city_years frame c)"
  by (simp add: series_get_def map_of_year_counts city_years_empty)

lemma fold_eligible_step:
  "fold (eligible_step p w) items S =
     S \<union> {fst i | i. i \<in> set items \<and> snd i \<ge> MIN_TOTAL_YEARS
             \<and> series_get p (fst i) \<ge> MIN_PREWAR_YEARS \<and> series_get w (fst i) \<ge> MIN_WARTIME_YEARS}"
  by (induction items arbitrary: S) (auto simp: eligible_step_def Let_def)

lemma set_year_counts:
  "set (year_counts frame) = (\<lambda>c. (c, card (city_years frame c))) ` c_city_id ` set frame"
  unfolding year_counts_def by (auto simp: nunique_city)

lemma city_years_prewar:
  "city_years (filter (\<lambda>g. year_le (c_year g) 2021) frame) c = city_years frame c \<inter> {..2021}"
  by (fastforce simp: city_years_iff year_le_def)

lemma city_years_wartime:
  "city_years (filter (\<lambda>g. year_ge (c_year g) 2022) frame) c = city_years frame c \<inter> {2022..}"
  by (fastforce simp: city_years_iff year_ge_def)

lemma eligible_city_ids_iff:
  "c \<in> eligible_city_ids good_years \<longleftrightarrow>
     card (city_years good_years c) \<ge> 4
     \<and> card (city_years good_years c \<inter> {..2021}) \<ge> 2
     \<and> card (city_years good_years c \<inter> {2022..}) \<ge> 2"
proof -
  have "c \<notin> c_city_id ` set good_years \<Longrightarrow> \<not> card (city_years good_years c) \<ge> 4"
    by (simp add: city_years_empty)
  then show ?thesis
    unfolding eligible_city_ids_def Let_def fold_eligible_step
    by (auto simp: set_year_counts series_get_year_counts city_years_prewar city_years_wartime
        MIN_TOTAL_YEARS_def MIN_PREWAR_YEARS_def MIN_WARTIME_YEARS_def)
qed

lemma city_years_drop:
  "city_years (drop_good_year c y frame) c = city_years frame c - {y}"
  by (fastforce simp: city_years_iff drop_good_year_def)

lemma finite_city_years: "finite (city_years frame c)"
  by (simp add: city_years_def)

text \<open>
  C6: a city is eligible if and only if it has at least 4 distinct good years, at least 2
  of them with year \<open>\<le> 2021\<close> and at least 2 with year \<open>\<ge> 2022\<close>. A city with exactly 4
  good years, 2 before and 2 in wartime, is eligible, and without any one of these good
  years it is not.
\<close>

theorem eligible_iff_thresholds:
  "(c \<in> eligible_city_ids good_years \<longleftrightarrow>
      card (city_years good_years c) \<ge> 4
      \<and> card (city_years good_years c \<inter> {..2021}) \<ge> 2
      \<and> card (city_years good_years c \<inter> {2022..}) \<ge> 2)
   \<and> (card (city_years good_years c) = 4
        \<and> card (city_years good_years c \<inter> {..2021}) = 2
        \<and> card (city_years good_years c \<inter> {2022..}) = 2
      \<longrightarrow> c \<in> eligible_city_ids good_years
          \<and> (\<forall>y \<in> city_years good_years c.
                c \<notin> eligible_city_ids (drop_good_year c y good_years)))"
proof -
  have drop: "card (city_years (drop_good_year c y good_years) c) < 4"
    if "card (city_years good_years c) = 4" "y \<in> city_years good_years c" for y
    using that by (simp add: city_years_drop finite_city_years)
  show ?thesis
    using drop by (fastforce simp: eligible_city_ids_iff)
qed

theorem eligible_iff_thresholds_witness:
  "card (city_years ex_good_years 7) = 4
   \<and> card (city_years ex_good_years 7 \<inter> {..2021}) = 2
   \<and> card (city_years ex_good_years 7 \<inter> {2022..}) = 2
   \<and> 2021 \<in> city_years ex_good_years 7
   \<and> 7 \<in> eligible_city_ids ex_good_years
   \<and> 7 \<notin> eligible_city_ids (drop_good_year 7 2021 ex_good_years)"
proof -
  have y: "city_years ex_good_years 7 = {2020, 2021, 2022, 2023}"
    by (simp add: city_years_def ex_good_years_def)
  have h: "card (city_years ex_good_years 7) = 4
     \<and> card (city_years ex_good_years 7 \<inter> {..2021}) = 2
     \<and> card (city_years ex_good_years 7 \<inter> {2022..}) = 2"
    by (simp add: y)
  have m: "2021 \<in> city_years ex_good_years 7"
    by (simp add: y)
  from eligible_iff_thresholds [of 7 ex_good_years] h m show ?thesis
    by blast
qed

section \<open>Good years\<close>

lemma coverage_ratio_eq:
  "g \<in> set (coverage df) \<Longrightarrow>
     c_coverage_ratio g =
       (if c_days g = 0 then 0 else real (c_coverage_days g) / real (c_days g))"
  by (auto simp: coverage_def coverage_group_def Let_def)

lemma ratio_ge_iff:
  fixes a b :: nat
  assumes "b > 0"
  shows "real a / real b \<ge> 7 / 10 \<longleftrightarrow> 7 * b \<le> 10 * a"
proof -
  have "real a / real b \<ge> 7 / 10 \<longleftrightarrow> 7 * real b \<le> 10 * real a"
    using assms by (simp add: field_simps)
  also have "\<dots> \<longleftrightarrow> real (7 * b) \<le> real (10 * a)"
    by simp
  also have "\<dots> \<longleftrightarrow> 7 * b \<le> 10 * a"
    by (simp only: of_nat_le_iff)
  finally show ?thesis .
qed

text \<open>
  C7: a city-year is a good year if and only if its coverage ratio is at least 0.7, the
  boundary included: with \<open>days > 0\<close> that is \<open>7 * days \<le> 10 * coverage_days\<close>. The
  ratio of a city-year with \<open>days = 0\<close> is 0, and it is never a good year.
\<close>

theorem good_year_iff_ratio:
  "(g \<in> set (compute_good_years df) \<longleftrightarrow>
      g \<in> set (coverage df) \<and> c_coverage_ratio g \<ge> 7 / 10)
   \<and> (g \<in> set (coverage df) \<longrightarrow>
        c_coverage_ratio g =
          (if c_days g = 0 then 0 else real (c_coverage_days g) / real (c_days g))
        \<and> (c_days g = 0 \<longrightarrow> g \<notin> set (compute_good_years df))
        \<and> (g \<in> set (compute_good_years df) \<longleftrightarrow>
              c_days g > 0 \<and> 7 * c_days g \<le> 10 * c_coverage_days g))"
proof -
  have a: "g \<in> set (compute_good_years df) \<longleftrightarrow>
      g \<in> set (coverage df) \<and> c_coverage_ratio g \<ge> 7 / 10"
    by (simp add: compute_good_years_def MIN_COVERAGE_RATIO_def)
  have b: "c_days g = 0 \<longrightarrow> g \<notin> set (compute_good_years df)"
    if "g \<in> set (coverage df)"
    using that by (simp add: a coverage_ratio_eq)
  have c: "g \<in> set (compute_good_years df) \<longleftrightarrow>
              c_days g > 0 \<and> 7 * c_days g \<le> 10 * c_coverage_days g"
    if "g \<in> set (coverage df)"
  proof (cases "c_days g = 0")
    case True
    with b that show ?thesis by simp
  next
    case False
    then have "c_coverage_ratio g = real (c_coverage_days g) / real (c_days g)"
      using that by (simp add: coverage_ratio_eq)
    moreover have "real (c_coverage_days g) / real (c_days g) \<ge> 7 / 10 \<longleftrightarrow>
        7 * c_days g \<le> 10 * c_coverage_days g"
      using False by (intro ratio_ge_iff) simp
    ultimately show ?thesis
      using False that by (simp only: a) simp
  qed
  show ?thesis
    using a b c coverage_ratio_eq [of g df] by blast
qed

lemma coverage_ex_df: "coverage ex_df = [ex_boundary_year, ex_null_year]"
  by (simp add: ex_df_def ex_boundary_year_def ex_null_year_def coverage_def
      coverage_group_def coverage_key_def nunique_def Let_def)

theorem good_year_iff_ratio_witness:
  "ex_boundary_year \<in> set (coverage ex_df)
   \<and> c_coverage_ratio ex_boundary_year = 7 / 10
   \<and> ex_boundary_year \<in> set (compute_good_years ex_df)
   \<and> ex_null_year \<in> set (coverage ex_df)
   \<and> c_days ex_null_year = 0
   \<and> ex_null_year \<notin> set (compute_good_years ex_df)"
proof -
  have m: "ex_boundary_year \<in> set (coverage ex_df)" "ex_null_year \<in> set (coverage ex_df)"
    by (simp_all add: coverage_ex_df)
  have v: "c_coverage_ratio ex_boundary_year = 7 / 10" "c_days ex_null_year = 0"
    by (simp_all add: ex_boundary_year_def ex_null_year_def)
  from good_year_iff_ratio [of ex_boundary_year ex_df]
       good_year_iff_ratio [of ex_null_year ex_df] m v
  show ?thesis by simp
qed

section \<open>Rows with a malformed date\<close>

lemma prepare_daily_year_None:
  "r \<in> set (prepare_daily daily) \<Longrightarrow> e_year r = None \<longleftrightarrow> e_date_local r = None"
  by (auto simp: prepare_daily_def)

lemma dropna_all_None: "\<forall>x \<in> set xs. x = None \<Longrightarrow> dropna xs = []"
  by (induction xs rule: dropna.induct) auto

lemma coverage_group_fields:
  "c_city_id (coverage_group df k) = fst k"
  "c_city_name (coverage_group df k) = fst (snd k)"
  "c_year (coverage_group df k) = snd (snd k)"
  by (simp_all add: coverage_group_def Let_def)

lemma null_year_group_days:
  assumes "\<forall>r \<in> set df. e_year r = None \<longrightarrow> e_date_local r = None"
    and "snd (snd k) = None"
  shows "c_days (coverage_group df k) = 0" "c_coverage_ratio (coverage_group df k) = 0"
proof -
  have "\<forall>x \<in> set (map e_date_local (filter (\<lambda>r. coverage_key r = k) df)). x = None"
    using assms by (auto simp: coverage_key_def)
  then have "nunique (map e_date_local (filter (\<lambda>r. coverage_key r = k) df)) = 0"
    unfolding nunique_def by (simp only: dropna_all_None) simp
  then show "c_days (coverage_group df k) = 0" "c_coverage_ratio (coverage_group df k) = 0"
    by (simp_all add: coverage_group_def Let_def)
qed

lemma null_year_not_good:
  assumes "g \<in> set (coverage (prepare_daily daily))" and "c_year g = None"
  shows "c_days g = 0" "c_coverage_ratio g = 0"
    "g \<notin> set (compute_good_years (prepare_daily daily))"
proof -
  obtain k where k: "g = coverage_group (prepare_daily daily) k"
    using assms(1) by (auto simp: coverage_def)
  with assms(2) have n: "snd (snd k) = None"
    by (simp add: coverage_group_fields)
  have p: "\<forall>r \<in> set (prepare_daily daily). e_year r = None \<longrightarrow> e_date_local r = None"
    by (simp add: prepare_daily_year_None)
  show "c_days g = 0" "c_coverage_ratio g = 0"
    using null_year_group_days [OF p n] k by simp_all
  then show "g \<notin> set (compute_good_years (prepare_daily daily))"
    by (simp add: compute_good_years_def MIN_COVERAGE_RATIO_def)
qed

lemma good_year_has_year:
  "g \<in> set (compute_good_years (prepare_daily daily)) \<Longrightarrow> c_year g \<noteq> None"
  using null_year_not_good(3) [of g daily]
  by (auto simp: compute_good_years_def)

lemma pairs_of_total:
  "\<forall>g \<in> set gs. c_year g \<noteq> None \<Longrightarrow>
     pairs_of gs = Inr {(c_city_id g, y) | g y. g \<in> set gs \<and> c_year g = Some y}"
  by (induction gs) (auto split: option.splits)

lemma compute_good_years_Nil: "compute_good_years [] = []"
  by (simp add: compute_good_years_def coverage_def)

lemma pairs_from_daily_eq:
  "eligible_city_year_pairs_from_daily daily =
     Inr {(c_city_id g, y) | g y.
            g \<in> set (compute_good_years (prepare_daily daily)) \<and> c_year g = Some y
            \<and> c_city_id g \<in> eligible_city_ids (compute_good_years (prepare_daily daily))}"
proof (cases "daily = []")
  case True
  then show ?thesis
    by (simp add: eligible_city_year_pairs_from_daily_def prepare_daily_def
        compute_good_years_Nil)
next
  case False
  let ?gy = "compute_good_years (prepare_daily daily)"
  have "\<forall>g \<in> set (filter (\<lambda>g. c_city_id g \<in> eligible_city_ids ?gy) ?gy). c_year g \<noteq> None"
    by (auto dest!: good_year_has_year)
  from pairs_of_total [OF this] False show ?thesis
    unfolding eligible_city_year_pairs_from_daily_def Let_def by auto
qed

text \<open>The coverage rows of the city-years are those of the table without the rows whose date is NaT.\<close>

lemma prepare_daily_filter:
  "prepare_daily (filter (\<lambda>r. to_datetime (d_date_local r) \<noteq> None) daily) =
     filter (\<lambda>r. snd (snd (coverage_key r)) \<noteq> None) (prepare_daily daily)"
  by (induction daily) (auto simp: prepare_daily_def coverage_key_def)

lemma coverage_group_filter:
  assumes "P k"
  shows "coverage_group (filter (\<lambda>r. P (coverage_key r)) df) k = coverage_group df k"
proof -
  have "filter (\<lambda>r. coverage_key r = k) (filter (\<lambda>r. P (coverage_key r)) df) =
        filter (\<lambda>r. coverage_key r = k) df"
    using assms by (induction df) auto
  then show ?thesis by (simp add: coverage_group_def)
qed

lemma coverage_filter_keys:
  "coverage (filter (\<lambda>r. P (coverage_key r)) df) =
     map (coverage_group df) (filter P (remdups (map coverage_key df)))"
proof -
  have "map coverage_key (filter (\<lambda>r. P (coverage_key r)) df) = filter P (map coverage_key df)"
    by (simp add: filter_map comp_def)
  then have "coverage (filter (\<lambda>r. P (coverage_key r)) df) =
      map (coverage_group (filter (\<lambda>r. P (coverage_key r)) df))
          (filter P (remdups (map coverage_key df)))"
    by (simp add: coverage_def remdups_filter)
  also have "\<dots> = map (coverage_group df) (filter P (remdups (map coverage_key df)))"
    by (rule map_cong) (simp_all add: coverage_group_filter)
  finally show ?thesis .
qed

lemma coverage_without_malformed:
  "coverage (prepare_daily (filter (\<lambda>r. to_datetime (d_date_local r) \<noteq> None) daily)) =
     filter (\<lambda>g. c_year g \<noteq> None) (coverage (prepare_daily daily))"
proof -
  have "filter (\<lambda>g. c_year g \<noteq> None) (coverage (prepare_daily daily)) =
      map (coverage_group (prepare_daily daily))
        (filter (\<lambda>k. snd (snd k) \<noteq> None) (remdups (map coverage_key (prepare_daily daily))))"
    by (simp add: coverage_def filter_map comp_def coverage_group_fields del: not_None_eq)
  then show ?thesis
    using coverage_filter_keys [of "\<lambda>k. snd (snd k) \<noteq> None" "prepare_daily daily"]
    by (simp add: prepare_daily_filter del: not_None_eq)
qed

lemma good_years_without_malformed:
  "compute_good_years (prepare_daily (filter (\<lambda>r. to_datetime (d_date_local r) \<noteq> None) daily)) =
     compute_good_years (prepare_daily daily)"
proof -
  have "filter (\<lambda>g. c_year g \<noteq> None \<and> c_coverage_ratio g \<ge> MIN_COVERAGE_RATIO)
          (coverage (prepare_daily daily)) =
        filter (\<lambda>g. c_coverage_ratio g \<ge> MIN_COVERAGE_RATIO) (coverage (prepare_daily daily))"
    by (rule filter_cong) (auto simp: MIN_COVERAGE_RATIO_def dest: null_year_not_good(2))
  then show ?thesis
    by (simp add: compute_good_years_def coverage_without_malformed del: not_None_eq)
qed

lemma drop_null_years_prepare:
  "drop_null_years (prepare_daily daily) =
     prepare_daily (filter (\<lambda>r. to_datetime (d_date_local r) \<noteq> None) daily)"
  by (simp add: drop_null_years_def prepare_daily_filter coverage_key_def del: not_None_eq)

lemma good_years_drop_null_years:
  "compute_good_years (drop_null_years (prepare_daily daily)) =
     compute_good_years (prepare_daily daily)"
  by (simp only: drop_null_years_prepare good_years_without_malformed)

lemma malformed_row_null_year:
  "to_datetime (d_date_local r) = None \<Longrightarrow> list_all (\<lambda>e. e_year e = None) (prepare_daily [r])"
  by (simp add: prepare_daily_def)

lemma pairs_dropping_null_years_eq:
  "eligible_city_year_pairs_from_daily daily = pairs_dropping_null_years daily"
proof (cases "daily = []")
  case True
  then show ?thesis
    by (simp add: eligible_city_year_pairs_from_daily_def pairs_dropping_null_years_def
        drop_null_years_def prepare_daily_def compute_good_years_Nil)
next
  case False
  then show ?thesis
    by (simp add: eligible_city_year_pairs_from_daily_def pairs_dropping_null_years_def
        good_years_drop_null_years Let_def)
qed

text \<open>
  C4: a row whose \<open>date_local\<close> does not parse gets a null year, and the entry point
  returns what it returns with the null-year rows dropped before the grouping: the
  coverage rows of the city-years, the good years and the eligible pairs are the same,
  and no good year and no pair has a null year.
\<close>

theorem malformed_dates_dropped:
  "(\<forall>r \<in> set daily. to_datetime (d_date_local r) = None \<longrightarrow>
       list_all (\<lambda>e. e_year e = None) (prepare_daily [r]))
   \<and> filter (\<lambda>g. c_year g \<noteq> None) (coverage (prepare_daily daily)) =
       coverage (drop_null_years (prepare_daily daily))
   \<and> compute_good_years (prepare_daily daily) =
       compute_good_years (drop_null_years (prepare_daily daily))
   \<and> (\<forall>g \<in> set (compute_good_years (prepare_daily daily)). c_year g \<noteq> None)
   \<and> eligible_city_year_pairs_from_daily daily = pairs_dropping_null_years daily"
proof -
  have "filter (\<lambda>g. c_year g \<noteq> None) (coverage (prepare_daily daily)) =
       coverage (drop_null_years (prepare_daily daily))"
    by (simp only: drop_null_years_prepare coverage_without_malformed)
  then show ?thesis
    using malformed_row_null_year good_year_has_year pairs_dropping_null_years_eq
    by (simp add: good_years_drop_null_years del: not_None_eq)
qed

theorem malformed_dates_dropped_witness:
  "ex_daily_row 1 ''Kyiv'' (Malformed ''2020-13-45'') 24 \<in> set ex_daily_mixed
   \<and> to_datetime (d_date_local (ex_daily_row 1 ''Kyiv'' (Malformed ''2020-13-45'') 24)) = None
   \<and> list_all (\<lambda>e. e_year e = None)
        (prepare_daily [ex_daily_row 1 ''Kyiv'' (Malformed ''2020-13-45'') 24])
   \<and> eligible_city_year_pairs_from_daily ex_daily_mixed
       = Inr {(1, 2020), (1, 2021), (1, 2022), (1, 2023)}
   \<and> pairs_dropping_null_years ex_daily_mixed
       = Inr {(1, 2020), (1, 2021), (1, 2022), (1, 2023)}"
proof -
  have m: "ex_daily_row 1 ''Kyiv'' (Malformed ''2020-13-45'') 24 \<in> set ex_daily_mixed"
    by (simp add: ex_daily_mixed_def)
  have n: "to_datetime (d_date_local (ex_daily_row 1 ''Kyiv'' (Malformed ''2020-13-45'') 24))
      = None"
    by (simp add: ex_daily_row_def)
  have p: "pairs_dropping_null_years ex_daily_mixed
       = Inr {(1, 2020), (1, 2021), (1, 2022), (1, 2023)}"
    by code_simp
  from malformed_dates_dropped [of ex_daily_mixed] m n p show ?thesis
    by simp
qed

section \<open>Daily aggregation\<close>

lemma daily_aggregates_Inr:
  assumes "daily_aggregates hourly g ws = Inr daily"
  shows "daily = map (daily_group g ws (filter h_is_valid hourly))
                     (remdups (map daily_key (filter daily_key_notna (filter h_is_valid hourly))))"
  using assms by (simp add: daily_aggregates_def Let_def split: if_splits)

lemma daily_row_group:
  assumes "daily_aggregates hourly g ws = Inr daily" and "r \<in> set daily"
  obtains h where "h \<in> set hourly" "h_is_valid h" "daily_key_notna h"
    and "r = daily_group g ws (filter h_is_valid hourly) (daily_key h)"
  using assms by (auto simp: daily_aggregates_Inr [OF assms(1)])

lemma daily_group_keys:
  "d_city_id (daily_group g ws valid k) = fst k"
  "d_city_name (daily_group g ws valid k) = fst (snd k)"
  "d_region_name (daily_group g ws valid k) = fst (snd (snd k))"
  "d_date_local (daily_group g ws valid k) = Timestamp (snd (snd (snd k)))"
  by (simp_all add: daily_group_def Let_def)

lemma daily_group_counts:
  "d_available_hours (daily_group g ws valid k) = length (filter (\<lambda>r. daily_key r = k) valid)"
  "d_exceedance_hours (daily_group g ws valid k) =
     length (filter (exceed g) (filter (\<lambda>r. daily_key r = k) valid))"
  "d_exceedance_share (daily_group g ws valid k) =
     (if d_available_hours (daily_group g ws valid k) > 0
      then Some (real (d_exceedance_hours (daily_group g ws valid k))
                 / real (d_available_hours (daily_group g ws valid k)))
      else None)"
  by (simp_all add: daily_group_def Let_def)

lemma valid_records_of_group:
  "valid_records_of hourly (daily_group g ws valid k) =
     filter (\<lambda>r. daily_key r = k) (filter h_is_valid hourly)"
  by (auto simp: valid_records_of_def daily_group_keys daily_key_def intro: filter_cong)

lemma available_hours_eq:
  assumes "daily_aggregates hourly g ws = Inr daily" and "r \<in> set daily"
  shows "d_available_hours r = length (valid_records_of hourly r)"
    and "valid_records_of hourly r \<noteq> []"
proof -
  from assms obtain h where h: "h \<in> set hourly" "h_is_valid h"
    and r: "r = daily_group g ws (filter h_is_valid hourly) (daily_key h)"
    by (rule daily_row_group)
  show "d_available_hours r = length (valid_records_of hourly r)"
    by (simp add: r valid_records_of_group daily_group_counts)
  have "h \<in> set (filter (\<lambda>r. daily_key r = daily_key h) (filter h_is_valid hourly))"
    using h by simp
  then show "valid_records_of hourly r \<noteq> []"
    unfolding r valid_records_of_group by (metis empty_iff list.set(1))
qed

lemma exceedance_le_available:
  assumes "daily_aggregates hourly g ws = Inr daily" and "r \<in> set daily"
  shows "d_exceedance_hours r \<le> d_available_hours r"
    and "d_exceedance_share r =
           (if d_available_hours r > 0
            then Some (real (d_exceedance_hours r) / real (d_available_hours r)) else None)"
proof -
  from assms obtain h where
    r: "r = daily_group g ws (filter h_is_valid hourly) (daily_key h)"
    by (rule daily_row_group)
  show "d_exceedance_hours r \<le> d_available_hours r"
    unfolding r daily_group_counts by (rule length_filter_le)
  show "d_exceedance_share r =
           (if d_available_hours r > 0
            then Some (real (d_exceedance_hours r) / real (d_available_hours r)) else None)"
    unfolding r by (rule daily_group_counts(3))
qed

lemma valid_records_bounded:
  assumes "hours_per_day_at_most n hourly"
  shows "length (valid_records_of hourly r) \<le> n"
proof (cases "valid_records_of hourly r")
  case Nil
  then show ?thesis by simp
next
  case (Cons h hs)
  then have "h \<in> set (valid_records_of hourly r)" by simp
  then have h: "h \<in> set hourly" "Timestamp (h_date_local h) = d_date_local r"
    "h_city_id h = d_city_id r"
    by (simp_all add: valid_records_of_def)
  have "length (valid_records_of hourly r) \<le>
      length (filter (\<lambda>h'. h_is_valid h' \<and> h_city_id h' = h_city_id h
                             \<and> h_date_local h' = h_date_local h) hourly)"
  proof -
    have "valid_records_of hourly r =
       filter (\<lambda>h'. h_city_name h' = d_city_name r \<and> h_region_name h' = d_region_name r)
         (filter (\<lambda>h'. h_is_valid h' \<and> h_city_id h' = h_city_id h
                             \<and> h_date_local h' = h_date_local h) hourly)"
      using h(2) [symmetric] h(3) by (auto simp: valid_records_of_def intro!: filter_cong)
    then show ?thesis
      by (simp only: length_filter_le)
  qed
  also have "\<dots> \<le> n"
    using assms h(1) by (simp add: hours_per_day_at_most_def)
  finally show ?thesis .
qed

text \<open>
  C10: a daily row exists only for a city and local date with at least one valid hourly
  record. So every daily row has \<open>available_hours \<ge> 1\<close> and its \<open>exceedance_share\<close> is
  a number, never NaN.
\<close>

theorem daily_rows_have_records:
  assumes "daily_aggregates hourly g ws = Inr daily"
  shows "(\<forall>r \<in> set daily.
            d_available_hours r \<ge> 1
            \<and> d_exceedance_share r \<noteq> None
            \<and> (\<exists>h \<in> set hourly. h_is_valid h \<and> h_city_id h = d_city_id r
                  \<and> Timestamp (h_date_local h) = d_date_local r))
         \<and> (\<forall>c d. (\<forall>h \<in> set hourly. h_is_valid h \<longrightarrow> h_city_id h = c \<longrightarrow> h_date_local h \<noteq> d)
              \<longrightarrow> (\<forall>r \<in> set daily. \<not> (d_city_id r = c \<and> d_date_local r = Timestamp d)))"
proof -
  have row: "d_available_hours r \<ge> 1 \<and> d_exceedance_share r \<noteq> None
            \<and> (\<exists>h \<in> set hourly. h_is_valid h \<and> h_city_id h = d_city_id r
                  \<and> Timestamp (h_date_local h) = d_date_local r)"
    if "r \<in> set daily" for r
  proof -
    have ne: "valid_records_of hourly r \<noteq> []"
      and len: "d_available_hours r = length (valid_records_of hourly r)"
      using available_hours_eq [OF assms that] by simp_all
    from ne len have pos: "d_available_hours r \<ge> 1"
      by (cases "valid_records_of hourly r") simp_all
    then have "d_exceedance_share r \<noteq> None"
      using exceedance_le_available(2) [OF assms that] by simp
    moreover from ne obtain h where "h \<in> set (valid_records_of hourly r)"
      by (cases "valid_records_of hourly r") auto
    then have "h \<in> set hourly \<and> h_is_valid h \<and> h_city_id h = d_city_id r
        \<and> Timestamp (h_date_local h) = d_date_local r"
      by (simp add: valid_records_of_def)
    ultimately show ?thesis using pos by blast
  qed
  then show ?thesis by fastforce
qed

lemma remdups_replicate: "remdups (replicate n x) = (if n = 0 then [] else [x])"
  by (induction n) auto

lemma daily_group_ex_day:
  "daily_aggregates ex_hourly_day 15 (Date 2022 2 24) = Inr [ex_day]"
  by (simp add: daily_aggregates_def ex_hourly_day_def ex_hour_dst_def ex_day_def
      daily_key_def daily_key_notna_def remdups_append remdups_replicate)

lemma ex_day_counts:
  "d_available_hours ex_day = 18" "d_exceedance_hours ex_day = 12"
  "d_exceedance_share ex_day = Some (2 / 3)"
  by (simp_all add: ex_day_def daily_group_counts ex_hourly_day_def ex_hour_dst_def
      daily_key_def exceed_def)

theorem daily_rows_have_records_witness:
  "daily_aggregates ex_hourly_day 15 (Date 2022 2 24) = Inr [ex_day]
   \<and> ex_day \<in> set [ex_day]
   \<and> d_available_hours ex_day \<ge> 1 \<and> d_exceedance_share ex_day \<noteq> None"
  using daily_rows_have_records [OF daily_group_ex_day] daily_group_ex_day
  by simp

text \<open>
  C5, as the code has it: \<open>available_hours\<close> of a daily row is the number of valid hourly
  records of its city and local date, whatever that number is; it is at most 24 when
  the hourly table holds at most 24 valid records per city and local date.
  \<open>exceedance_hours\<close> never exceeds it, and \<open>exceedance_share\<close> lies in [0, 1] whenever
  \<open>available_hours > 0\<close>.
\<close>

theorem available_hours_and_share_bounds:
  assumes "daily_aggregates hourly g ws = Inr daily" and "r \<in> set daily"
  shows "d_available_hours r = length (valid_records_of hourly r)
         \<and> (hours_per_day_at_most 24 hourly \<longrightarrow> d_available_hours r \<le> 24)
         \<and> d_exceedance_hours r \<le> d_available_hours r
         \<and> (d_available_hours r > 0 \<longrightarrow>
              (\<exists>s. d_exceedance_share r = Some s \<and> 0 \<le> s \<and> s \<le> 1))"
proof -
  have len: "d_available_hours r = length (valid_records_of hourly r)"
    by (rule available_hours_eq(1) [OF assms])
  have le: "d_exceedance_hours r \<le> d_available_hours r"
    by (rule exceedance_le_available(1) [OF assms])
  have "\<exists>s. d_exceedance_share r = Some s \<and> 0 \<le> s \<and> s \<le> 1" if "d_available_hours r > 0"
  proof -
    have "real (d_exceedance_hours r) / real (d_available_hours r) \<le> 1"
      using le that by simp
    then show ?thesis
      using exceedance_le_available(2) [OF assms] that by simp
  qed
  then show ?thesis
    using len le valid_records_bounded [of 24 hourly r] by simp
qed

theorem available_hours_and_share_bounds_witness:
  "daily_aggregates ex_hourly_day 15 (Date 2022 2 24) = Inr [ex_day]
   \<and> ex_day \<in> set [ex_day]
   \<and> hours_per_day_at_most 24 ex_hourly_day
   \<and> d_available_hours ex_day > 0
   \<and> d_available_hours ex_day \<le> 24
   \<and> (\<exists>s. d_exceedance_share ex_day = Some s \<and> 0 \<le> s \<and> s \<le> 1)"
proof -
  have b: "hours_per_day_at_most 24 ex_hourly_day"
    by (simp add: hours_per_day_at_most_def ex_hourly_day_def ex_hour_dst_def)
  have m: "ex_day \<in> set [ex_day]" by simp
  have p: "d_available_hours ex_day > 0" by (simp add: ex_day_counts)
  from available_hours_and_share_bounds [OF daily_group_ex_day m] b p daily_group_ex_day
  show ?thesis by simp
qed

text \<open>
  C5 as stated fails: 25 valid records of one city on one local date give a daily
  row with 25 available hours.
\<close>

theorem available_hours_exceed_24:
  "map_sum id (map d_available_hours) (daily_aggregates ex_hourly_dst 15 (Date 2022 2 24))
     = Inr [25]"
  by (simp add: daily_aggregates_def ex_hourly_dst_def ex_hour_dst_def daily_key_def
      daily_key_notna_def daily_group_counts remdups_replicate)

section \<open>The eligibility gate of the pipeline\<close>

lemma aggregate_data_no_eligible:
  assumes "daily_aggregates (enrich_hourly hourly) g ws = Inr daily"
    and "eligible_city_year_pairs_from_daily daily = Inr {}"
  shows "aggregate_data hourly dir ws g =
           (Inl (RuntimeError ''No cities meet coverage criteria for analysis''), dir)"
  using assms by (simp add: aggregate_data_def Let_def)

lemma aggregate_data_success:
  assumes "daily_aggregates (enrich_hourly hourly) g ws = Inr daily"
    and "eligible_city_year_pairs_from_daily daily = Inr pairs"
    and "pairs \<noteq> {}"
  shows "fst (aggregate_data hourly dir ws g) =
           Inr \<lparr> hourly_rows = length (merge_hourly (enrich_hourly hourly) pairs),
                 daily_rows = length (merge_daily daily pairs),
                 city_distribution_rows = length (city_distributions (merge_daily daily pairs)),
                 region_period_rows = length (region_period_summary (merge_daily daily pairs)),
                 eligible_cities = card (fst ` pairs) \<rparr>"
    and "f_city_hourly (snd (aggregate_data hourly dir ws g)) =
           Some (merge_hourly (enrich_hourly hourly) pairs)"
    and "f_city_daily (snd (aggregate_data hourly dir ws g)) = Some (merge_daily daily pairs)"
    and "f_city_distributions (snd (aggregate_data hourly dir ws g)) =
           Some (city_distributions (merge_daily daily pairs))"
  using assms by (simp_all add: aggregate_data_def Let_def)

lemma aggregate_data_Inr:
  assumes "aggregate_data hourly dir ws g = (Inr result, dir')"
  obtains daily pairs where "daily_aggregates (enrich_hourly hourly) g ws = Inr daily"
    and "eligible_city_year_pairs_from_daily daily = Inr pairs" and "pairs \<noteq> {}"
  using assms
  by (auto simp: aggregate_data_def Let_def split: sum.splits if_splits)


text \<open>
  C8: when the pipeline succeeds, the hourly and the daily table it writes are exactly
  the rows of the enriched hourly table and of the daily table whose (city_id, year) is
  an eligible pair: every written row has an eligible pair, and every row with an
  eligible pair is written.
\<close>

theorem eligibility_gate_exact:
  assumes "aggregate_data hourly dir ws g = (Inr result, dir')"
  shows "\<exists>daily pairs hs ds.
           daily_aggregates (enrich_hourly hourly) g ws = Inr daily
           \<and> eligible_city_year_pairs_from_daily daily = Inr pairs
           \<and> f_city_hourly dir' = Some hs \<and> f_city_daily dir' = Some ds
           \<and> (\<forall>r \<in> set hs. (h_city_id r, h_year r) \<in> pairs)
           \<and> (\<forall>r \<in> set (enrich_hourly hourly). (h_city_id r, h_year r) \<in> pairs \<longrightarrow> r \<in> set hs)
           \<and> (\<forall>r \<in> set ds. (d_city_id r, d_year r) \<in> pairs)
           \<and> (\<forall>r \<in> set daily. (d_city_id r, d_year r) \<in> pairs \<longrightarrow> r \<in> set ds)"
proof -
  from assms obtain daily pairs where
    d: "daily_aggregates (enrich_hourly hourly) g ws = Inr daily"
    and p: "eligible_city_year_pairs_from_daily daily = Inr pairs" and ne: "pairs \<noteq> {}"
    by (rule aggregate_data_Inr)
  have "f_city_hourly dir' = Some (merge_hourly (enrich_hourly hourly) pairs)"
    and "f_city_daily dir' = Some (merge_daily daily pairs)"
    using aggregate_data_success(2,3) [OF d p ne, of dir] assms by simp_all
  then show ?thesis
    using d p by (auto simp: merge_hourly_def merge_daily_def)
qed


theorem eligibility_gate_exact_witness:
  "aggregate_data ex_hourly_years ex_dir (Date 2022 2 24) 15 =
     (Inr ex_result, snd (aggregate_data ex_hourly_years ex_dir (Date 2022 2 24) 15))
   \<and> (\<exists>daily pairs hs ds.
         daily_aggregates (enrich_hourly ex_hourly_years) 15 (Date 2022 2 24) = Inr daily
         \<and> eligible_city_year_pairs_from_daily daily = Inr pairs
         \<and> f_city_hourly (snd (aggregate_data ex_hourly_years ex_dir (Date 2022 2 24) 15))
             = Some hs
         \<and> f_city_daily (snd (aggregate_data ex_hourly_years ex_dir (Date 2022 2 24) 15))
             = Some ds
         \<and> (\<forall>r \<in> set hs. (h_city_id r, h_year r) \<in> pairs)
         \<and> (\<forall>r \<in> set (enrich_hourly ex_hourly_years).
               (h_city_id r, h_year r) \<in> pairs \<longrightarrow> r \<in> set hs)
         \<and> (\<forall>r \<in> set ds. (d_city_id r, d_year r) \<in> pairs)
         \<and> (\<forall>r \<in> set daily. (d_city_id r, d_year r) \<in> pairs \<longrightarrow> r \<in> set ds))"
proof -
  have "fst (aggregate_data ex_hourly_years ex_dir (Date 2022 2 24) 15) = Inr ex_result"
    by code_simp
  then have h: "aggregate_data ex_hourly_years ex_dir (Date 2022 2 24) 15 =
     (Inr ex_result, snd (aggregate_data ex_hourly_years ex_dir (Date 2022 2 24) 15))"
    by (simp add: prod_eq_iff)
  from eligibility_gate_exact [OF h] h show ?thesis
    by blast
qed

text \<open>
  C9: when the daily table is computed and its eligible set is empty, the pipeline
  raises and leaves the output directory as it was. The eligibility functions never
  raise: they return a set for every table, the empty set for the empty table.
\<close>

theorem empty_eligible_set_fails:
  "(daily_aggregates (enrich_hourly hourly) g ws = Inr daily
      \<and> eligible_city_year_pairs_from_daily daily = Inr {}
    \<longrightarrow> aggregate_data hourly dir ws g =
          (Inl (RuntimeError ''No cities meet coverage criteria for analysis''), dir))
   \<and> (\<exists>pairs. eligible_city_year_pairs_from_daily table = Inr pairs)
   \<and> (\<exists>ids. eligible_city_ids_from_daily table = Inr ids)
   \<and> eligible_city_year_pairs_from_daily [] = Inr {}
   \<and> eligible_city_ids_from_daily [] = Inr {}
   \<and> eligible_city_ids_from_distributions [] = {}"
proof -
  have a: "\<exists>pairs. eligible_city_year_pairs_from_daily table = Inr pairs"
    by (simp only: pairs_from_daily_eq) blast
  then have b: "\<exists>ids. eligible_city_ids_from_daily table = Inr ids"
    by (auto simp: eligible_city_ids_from_daily_def)
  have c: "eligible_city_year_pairs_from_daily [] = Inr {}"
    by (simp add: eligible_city_year_pairs_from_daily_def)
  then have d: "eligible_city_ids_from_daily [] = Inr {}"
    by (simp add: eligible_city_ids_from_daily_def)
  have e: "eligible_city_ids_from_distributions [] = {}"
    by (simp add: eligible_city_ids_from_distributions_def year_level_rows_def)
  show ?thesis
    using a b c d e aggregate_data_no_eligible by blast
qed

theorem empty_eligible_set_fails_witness:
  "daily_aggregates (enrich_hourly (ex_hourly_year 2020)) 15 (Date 2022 2 24) = Inr ex_daily_2020
   \<and> eligible_city_year_pairs_from_daily ex_daily_2020 = Inr {}
   \<and> aggregate_data (ex_hourly_year 2020) ex_dir (Date 2022 2 24) 15 =
       (Inl (RuntimeError ''No cities meet coverage criteria for analysis''), ex_dir)"
proof -
  have a: "daily_aggregates (enrich_hourly (ex_hourly_year 2020)) 15 (Date 2022 2 24)
      = Inr ex_daily_2020"
    by code_simp
  have b: "eligible_city_year_pairs_from_daily ex_daily_2020 = Inr {}"
    by code_simp
  from empty_eligible_set_fails [of "ex_hourly_year 2020" 15 "Date 2022 2 24" ex_daily_2020 ex_dir]
    a b show ?thesis by blast
qed

section \<open>The scenario of one day\<close>

lemma scenario_all_valid: "list_all h_is_valid (enrich_hourly ex_hourly_scenario)"
  by (simp add: ex_hourly_scenario_def enrich_hourly_def between_def)

text \<open>
  C2, as the code has it: on the day with pm25 values 10, 20, 30 and NaN, all four
  records valid, and guideline 15, \<open>available_hours\<close> is 4 (the group size counts the
  record without a pm25 value), \<open>exceedance_hours\<close> is 2 (20 and 30 exceed, NaN does not)
  and \<open>exceedance_share\<close> is 1/2.
\<close>

theorem scenario_daily_row:
  "list_all h_is_valid (enrich_hourly ex_hourly_scenario)
   \<and> map_sum id (map hours_columns)
        (daily_aggregates (enrich_hourly ex_hourly_scenario) 15 (Date 2022 2 24))
      = Inr [(4, 2, Some (1 / 2))]"
  by (simp add: ex_hourly_scenario_def enrich_hourly_def between_def daily_aggregates_def
      daily_key_def daily_key_notna_def hours_columns_def daily_group_counts exceed_def)

text \<open>C2 as stated fails: the values are not 3, 1 and 1/3.\<close>

theorem scenario_not_as_claimed:
  "map_sum id (map hours_columns)
     (daily_aggregates (enrich_hourly ex_hourly_scenario) 15 (Date 2022 2 24))
   \<noteq> Inr [(3, 1, Some (1 / 3))]"
  by (simp add: ex_hourly_scenario_def enrich_hourly_def between_def daily_aggregates_def
      daily_key_def daily_key_notna_def hours_columns_def daily_group_counts exceed_def)

section \<open>City distributions\<close>

lemma dist_aggregate_fields:
  "s_city_id (dist_aggregate c n rg p y l grp) = c"
  "s_city_name (dist_aggregate c n rg p y l grp) = n"
  "s_region_name (dist_aggregate c n rg p y l grp) = rg"
  "s_period (dist_aggregate c n rg p y l grp) = p"
  "s_year (dist_aggregate c n rg p y l grp) = y"
  "s_aggregation_level (dist_aggregate c n rg p y l grp) = l"
  "s_pm25_mean (dist_aggregate c n rg p y l grp) = mean_skipna (map d_pm25_mean grp)"
  "s_pm25_median (dist_aggregate c n rg p y l grp) = median_skipna (map d_pm25_median grp)"
  "s_pm25_p90 (dist_aggregate c n rg p y l grp) = quantile (9 / 10) (map d_pm25_median grp)"
  "s_pm25_p10 (dist_aggregate c n rg p y l grp) = quantile (1 / 10) (map d_pm25_median grp)"
  "s_days (dist_aggregate c n rg p y l grp) = length (filter date_notna (map d_date_local grp))"
  "s_days_with_coverage_ge18 (dist_aggregate c n rg p y l grp) =
     length (filter (\<lambda>r. 18 \<le> d_available_hours r) grp)"
  by (simp_all add: dist_aggregate_def)

lemma period_summary_row:
  assumes "s \<in> set (period_summary daily)"
  shows "s = dist_aggregate (s_city_id s) (s_city_name s) (s_region_name s) (s_period s) None
               ''period'' (rows_of_dist_row daily s)"
proof -
  from assms obtain k where
    s: "s = dist_aggregate (fst k) (fst (snd k)) (fst (snd (snd k)))
               (Some (snd (snd (snd k)))) None ''period''
               (filter (\<lambda>r. period_key r = k) daily)"
    by (auto simp: period_summary_def)
  have "rows_of_dist_row daily s = filter (\<lambda>r. period_key r = k) daily"
    unfolding rows_of_dist_row_def s dist_aggregate_fields
    by (rule filter_cong) (auto simp: period_key_def)
  then show ?thesis
    by (simp add: s dist_aggregate_fields)
qed

lemma year_summary_row:
  assumes "s \<in> set (year_summary daily)"
  shows "s = dist_aggregate (s_city_id s) (s_city_name s) (s_region_name s) None (s_year s)
               ''year'' (rows_of_dist_row daily s)"
proof -
  from assms obtain k where
    s: "s = dist_aggregate (fst k) (fst (snd k)) (fst (snd (snd k)))
               None (Some (snd (snd (snd k)))) ''year''
               (filter (\<lambda>r. year_key r = k) daily)"
    by (auto simp: year_summary_def)
  have "rows_of_dist_row daily s = filter (\<lambda>r. year_key r = k) daily"
    unfolding rows_of_dist_row_def s dist_aggregate_fields
    by (rule filter_cong) (auto simp: year_key_def)
  then show ?thesis
    by (simp add: s dist_aggregate_fields)
qed

text \<open>
  C3, as the code has it: at both granularities the median, the p10 and the p90 of a
  row of the city distribution table are taken over the daily pm25 medians of its daily
  rows, and its mean over their daily pm25 means.
\<close>

theorem distribution_statistics_columns:
  assumes "s \<in> set (city_distributions daily)"
  shows "(s_aggregation_level s = ''period'' \<or> s_aggregation_level s = ''year'')
         \<and> s_pm25_median s = median_skipna (map d_pm25_median (rows_of_dist_row daily s))
         \<and> s_pm25_p10 s = quantile (1 / 10) (map d_pm25_median (rows_of_dist_row daily s))
         \<and> s_pm25_p90 s = quantile (9 / 10) (map d_pm25_median (rows_of_dist_row daily s))
         \<and> s_pm25_mean s = mean_skipna (map d_pm25_mean (rows_of_dist_row daily s))"
proof -
  from assms consider "s \<in> set (period_summary daily)" | "s \<in> set (year_summary daily)"
    by (auto simp: city_distributions_def)
  then show ?thesis
  proof cases
    case 1
    from period_summary_row [OF this] show ?thesis
      by (metis dist_aggregate_fields(6-10))
  next
    case 2
    from year_summary_row [OF this] show ?thesis
      by (metis dist_aggregate_fields(6-10))
  qed
qed

lemma city_distributions_ex_one_day:
  "city_distributions ex_one_day = [ex_dist_period, ex_dist_year]"
  by code_simp

theorem distribution_statistics_columns_witness:
  "ex_dist_year \<in> set (city_distributions ex_one_day)
   \<and> s_pm25_median ex_dist_year
       = median_skipna (map d_pm25_median (rows_of_dist_row ex_one_day ex_dist_year))
   \<and> s_pm25_mean ex_dist_year
       = mean_skipna (map d_pm25_mean (rows_of_dist_row ex_one_day ex_dist_year))"
proof -
  have m: "ex_dist_year \<in> set (city_distributions ex_one_day)"
    by (simp add: city_distributions_ex_one_day)
  from distribution_statistics_columns [OF m] m show ?thesis
    by blast
qed

text \<open>
  C3 as stated fails for the mean: on a table of one day with mean 12 and median
  11, the mean of both distribution rows is 12, while the mean of the daily medians is 11.
\<close>

theorem distribution_mean_not_over_medians:
  "map s_pm25_mean (city_distributions ex_one_day) = [Some 12, Some 12]
   \<and> mean_skipna (map d_pm25_median ex_one_day) = Some 11"
proof -
  have "map s_pm25_mean (city_distributions ex_one_day) = [Some 12, Some 12]"
    by (simp add: city_distributions_ex_one_day ex_dist_period_def ex_dist_year_def)
  moreover have "mean_skipna (map d_pm25_median ex_one_day) = Some 11"
    by (simp add: ex_one_day_def ex_daily_row_def mean_skipna_def mean_values_def)
  ultimately show ?thesis by simp
qed

section \<open>The two entry points of the eligibility rule\<close>

lemma city_years_good_pairs: "city_years gy c = {y. (c, y) \<in> good_pairs gy}"
  by (auto simp: city_years_iff good_pairs_def)

lemma eligible_city_ids_good_pairs:
  assumes "good_pairs a = good_pairs b"
  shows "eligible_city_ids a = eligible_city_ids b"
proof -
  have "city_years a c = city_years b c" for c
    by (simp add: city_years_good_pairs assms)
  then show ?thesis
    by (auto simp: eligible_city_ids_iff)
qed

lemma eligible_city_ids_Nil: "eligible_city_ids [] = {}"
  by (simp add: eligible_city_ids_def year_counts_def)

lemma ids_from_daily_eq:
  "eligible_city_ids_from_daily daily =
     Inr (eligible_city_ids (compute_good_years (prepare_daily daily)))"
proof -
  let ?gy = "compute_good_years (prepare_daily daily)"
  have "fst ` {(c_city_id g, y) | g y. g \<in> set ?gy \<and> c_year g = Some y
                  \<and> c_city_id g \<in> eligible_city_ids ?gy} = eligible_city_ids ?gy"
  proof (intro equalityI subsetI)
    fix c assume "c \<in> fst ` {(c_city_id g, y) | g y. g \<in> set ?gy \<and> c_year g = Some y
                  \<and> c_city_id g \<in> eligible_city_ids ?gy}"
    then show "c \<in> eligible_city_ids ?gy" by auto
  next
    fix c assume c: "c \<in> eligible_city_ids ?gy"
    then have "card (city_years ?gy c) \<ge> 4"
      by (simp add: eligible_city_ids_iff)
    then have "city_years ?gy c \<noteq> {}" by auto
    then obtain y where "y \<in> city_years ?gy c" by blast
    then obtain g where "g \<in> set ?gy" "c_city_id g = c" "c_year g = Some y"
      by (auto simp: city_years_iff)
    with c show "c \<in> fst ` {(c_city_id g, y) | g y. g \<in> set ?gy \<and> c_year g = Some y
                  \<and> c_city_id g \<in> eligible_city_ids ?gy}"
      by force
  qed
  then show ?thesis
    by (simp add: eligible_city_ids_from_daily_def pairs_from_daily_eq)
qed

lemma coverage_group_prepare:
  "coverage_group (prepare_daily daily) (c, n, Some y) =
     \<lparr> c_city_id = c, c_city_name = n, c_year = Some y,
       c_days = days_observed daily c n y, c_coverage_days = days_covered daily c n y,
       c_coverage_ratio =
         (if days_observed daily c n y > 0
          then real (days_covered daily c n y) / real (days_observed daily c n y) else 0) \<rparr>"
proof -
  have grp: "filter (\<lambda>r. coverage_key r = (c, n, Some y)) (prepare_daily daily) =
      prepare_daily (rows_of_city_year daily c n y)"
    by (induction daily)
      (auto simp: prepare_daily_def rows_of_city_year_def coverage_key_def cell_year_def)
  have d: "nunique (map e_date_local (prepare_daily rows)) =
      card (set (dropna (map (\<lambda>r. to_datetime (d_date_local r)) rows)))" for rows
    by (simp add: nunique_card prepare_daily_def comp_def)
  have h: "length (filter (\<lambda>r. 18 \<le> e_available_hours r) (prepare_daily rows)) =
      length (filter (\<lambda>r. 18 \<le> d_available_hours r) rows)" for rows
    by (induction rows) (auto simp: prepare_daily_def)
  show ?thesis
    by (simp add: coverage_group_def grp d h days_observed_def days_covered_def Let_def)
qed

lemma set_city_year_keys:
  "set (city_year_keys daily) =
     {(d_city_id r, d_city_name r, y) | r y. r \<in> set daily \<and> cell_year (d_date_local r) = Some y}"
  by (auto simp: city_year_keys_def split: option.splits)

lemma coverage_keys_prepare:
  "(c, n, Some y) \<in> set (map coverage_key (prepare_daily daily)) \<longleftrightarrow>
     (c, n, y) \<in> set (city_year_keys daily)"
proof -
  have "set (map coverage_key (prepare_daily daily)) =
      (\<lambda>r. (d_city_id r, d_city_name r, cell_year (d_date_local r))) ` set daily"
    by (simp add: prepare_daily_def coverage_key_def cell_year_def image_image)
  then show ?thesis
    by (simp only: set_city_year_keys) auto
qed

lemma good_pairs_daily:
  "good_pairs (compute_good_years (prepare_daily daily)) =
     good_of_counts (daily_coverage_counts daily)"
proof (intro equalityI subsetI)
  fix p assume "p \<in> good_pairs (compute_good_years (prepare_daily daily))"
  then obtain g y where p: "p = (c_city_id g, y)" and y: "c_year g = Some y"
    and g: "g \<in> set (coverage (prepare_daily daily))"
    and r: "c_coverage_ratio g \<ge> 7 / 10"
    by (auto simp: good_pairs_def compute_good_years_def MIN_COVERAGE_RATIO_def)
  from g obtain k where k: "k \<in> set (map coverage_key (prepare_daily daily))"
    and gk: "g = coverage_group (prepare_daily daily) k"
    by (auto simp: coverage_def)
  obtain c n where kc: "k = (c, n, Some y)"
    using y gk by (cases k) (simp add: coverage_group_fields)
  have key: "(c, n, y) \<in> set (city_year_keys daily)"
    using k kc coverage_keys_prepare by simp
  have g': "g = \<lparr> c_city_id = c, c_city_name = n, c_year = Some y,
       c_days = days_observed daily c n y, c_coverage_days = days_covered daily c n y,
       c_coverage_ratio =
         (if days_observed daily c n y > 0
          then real (days_covered daily c n y) / real (days_observed daily c n y) else 0) \<rparr>"
    using gk kc coverage_group_prepare by simp
  have pos: "days_observed daily c n y > 0"
    using r by (subst (asm) g') (simp split: if_splits)
  have rat: "real (days_covered daily c n y) / real (days_observed daily c n y) \<ge> 7 / 10"
    using r pos by (subst (asm) g') simp
  have "(c, y, days_observed daily c n y, days_covered daily c n y) \<in> daily_coverage_counts daily"
    unfolding daily_coverage_counts_def using key by force
  moreover have "p = (c, y)"
    using p by (subst (asm) g') simp
  ultimately show "p \<in> good_of_counts (daily_coverage_counts daily)"
    unfolding good_of_counts_def using pos rat by blast
next
  fix p assume "p \<in> good_of_counts (daily_coverage_counts daily)"
  then obtain c y days cov where p: "p = (c, y)"
    and m: "(c, y, days, cov) \<in> daily_coverage_counts daily"
    and pos: "days > 0" and rat: "real cov / real days \<ge> 7 / 10"
    by (auto simp: good_of_counts_def)
  from m obtain n where key: "(c, n, y) \<in> set (city_year_keys daily)"
    and days: "days = days_observed daily c n y" and cov: "cov = days_covered daily c n y"
    by (auto simp: daily_coverage_counts_def)
  let ?g = "coverage_group (prepare_daily daily) (c, n, Some y)"
  have "(c, n, Some y) \<in> set (map coverage_key (prepare_daily daily))"
    using key coverage_keys_prepare by simp
  then have "?g \<in> set (coverage (prepare_daily daily))"
    by (simp add: coverage_def)
  moreover have "c_coverage_ratio ?g \<ge> 7 / 10"
    using pos rat days cov by (simp add: coverage_group_prepare)
  ultimately have "?g \<in> set (compute_good_years (prepare_daily daily))"
    by (simp add: compute_good_years_def MIN_COVERAGE_RATIO_def)
  moreover have "c_city_id ?g = c" "c_year ?g = Some y"
    by (simp_all add: coverage_group_fields)
  ultimately show "p \<in> good_pairs (compute_good_years (prepare_daily daily))"
    unfolding good_pairs_def p by force
qed

lemma ids_from_distributions_eq:
  "eligible_city_ids_from_distributions distributions =
     eligible_city_ids
       (filter (\<lambda>g. c_coverage_ratio g \<ge> MIN_COVERAGE_RATIO)
          (map dist_coverage_row (filter (\<lambda>r. s_days r > 0) (year_level_rows distributions))))"
  by (simp add: eligible_city_ids_from_distributions_def Let_def eligible_city_ids_Nil)

lemma dist_coverage_counts_iff:
  "(c, y, days, cov) \<in> dist_coverage_counts distributions \<longleftrightarrow>
     (\<exists>r \<in> set distributions. s_aggregation_level r = ''year'' \<and> s_year r = Some y
        \<and> s_city_id r = c \<and> s_days r = days \<and> s_days_with_coverage_ge18 r = cov)"
  by (induction distributions)
    (auto simp: dist_coverage_counts_def split: option.splits)

lemma good_pairs_distributions:
  "good_pairs
     (filter (\<lambda>g. c_coverage_ratio g \<ge> MIN_COVERAGE_RATIO)
        (map dist_coverage_row (filter (\<lambda>r. s_days r > 0) (year_level_rows distributions))))
   = good_of_counts (dist_coverage_counts distributions)"
proof (intro equalityI subsetI)
  fix p assume "p \<in> good_pairs
     (filter (\<lambda>g. c_coverage_ratio g \<ge> MIN_COVERAGE_RATIO)
        (map dist_coverage_row (filter (\<lambda>r. s_days r > 0) (year_level_rows distributions))))"
  then obtain r y where r: "r \<in> set distributions" "s_aggregation_level r = ''year''"
    "s_days r > 0" "c_coverage_ratio (dist_coverage_row r) \<ge> 7 / 10"
    "c_year (dist_coverage_row r) = Some y" and p: "p = (c_city_id (dist_coverage_row r), y)"
    by (auto simp: good_pairs_def year_level_rows_def MIN_COVERAGE_RATIO_def)
  then have "(s_city_id r, y, s_days r, s_days_with_coverage_ge18 r)
      \<in> dist_coverage_counts distributions"
    by (auto simp: dist_coverage_counts_iff dist_coverage_row_def)
  moreover have "real (s_days_with_coverage_ge18 r) / real (s_days r) \<ge> 7 / 10"
    using r(3,4) by (simp add: dist_coverage_row_def)
  moreover have "p = (s_city_id r, y)"
    using p by (simp add: dist_coverage_row_def)
  ultimately show "p \<in> good_of_counts (dist_coverage_counts distributions)"
    unfolding good_of_counts_def using r(3) by blast
next
  fix p assume "p \<in> good_of_counts (dist_coverage_counts distributions)"
  then obtain c y days cov where p: "p = (c, y)"
    and m: "(c, y, days, cov) \<in> dist_coverage_counts distributions"
    and pos: "days > 0" and rat: "real cov / real days \<ge> 7 / 10"
    by (auto simp: good_of_counts_def)
  from m obtain r where r: "r \<in> set distributions" "s_aggregation_level r = ''year''"
    "s_year r = Some y" "s_city_id r = c" "s_days r = days" "s_days_with_coverage_ge18 r = cov"
    by (auto simp: dist_coverage_counts_iff)
  have "r \<in> set (filter (\<lambda>r. s_days r > 0) (year_level_rows distributions))"
    using r pos by (simp add: year_level_rows_def)
  then have "dist_coverage_row r
      \<in> dist_coverage_row ` set (filter (\<lambda>r. s_days r > 0) (year_level_rows distributions))"
    by (rule imageI)
  moreover have "c_coverage_ratio (dist_coverage_row r) \<ge> MIN_COVERAGE_RATIO"
    using r pos rat by (simp add: MIN_COVERAGE_RATIO_def dist_coverage_row_def)
  ultimately have "dist_coverage_row r \<in> set (filter (\<lambda>g. c_coverage_ratio g \<ge> MIN_COVERAGE_RATIO)
        (map dist_coverage_row (filter (\<lambda>r. s_days r > 0) (year_level_rows distributions))))"
    by simp
  moreover have "c_city_id (dist_coverage_row r) = c" "c_year (dist_coverage_row r) = Some y"
    using r by (simp_all add: dist_coverage_row_def)
  ultimately show "p \<in> good_pairs
     (filter (\<lambda>g. c_coverage_ratio g \<ge> MIN_COVERAGE_RATIO)
        (map dist_coverage_row (filter (\<lambda>r. s_days r > 0) (year_level_rows distributions))))"
    unfolding good_pairs_def p by force
qed

text \<open>
  C1: on a daily table and a distribution table whose year-level rows carry the same
  (city_id, year, days, covered days) as the city-years of the daily table, the two
  entry points return the same set of eligible cities.
\<close>

theorem entry_points_agree:
  assumes "equivalent_coverage_inputs daily distributions"
  shows "eligible_city_ids_from_daily daily =
           Inr (eligible_city_ids_from_distributions distributions)"
proof -
  have "good_pairs (compute_good_years (prepare_daily daily)) =
      good_pairs
        (filter (\<lambda>g. c_coverage_ratio g \<ge> MIN_COVERAGE_RATIO)
          (map dist_coverage_row (filter (\<lambda>r. s_days r > 0) (year_level_rows distributions))))"
    using assms
    by (simp only: good_pairs_daily good_pairs_distributions equivalent_coverage_inputs_def)
  then show ?thesis
    by (simp only: ids_from_daily_eq ids_from_distributions_eq
        eligible_city_ids_good_pairs [OF \<open>good_pairs _ = good_pairs _\<close>])
qed

theorem entry_points_agree_witness:
  "equivalent_coverage_inputs ex_daily_mixed ex_distributions
   \<and> eligible_city_ids_from_daily ex_daily_mixed = Inr {1}
   \<and> eligible_city_ids_from_distributions ex_distributions = {1}"
proof -
  have h: "equivalent_coverage_inputs ex_daily_mixed ex_distributions"
    by code_simp
  have d: "eligible_city_ids_from_distributions ex_distributions = {1}"
    by code_simp
  from entry_points_agree [OF h] h d show ?thesis
    by simp
qed

end
